theory Spec2Isabelle
  imports Main "HOL-Library.Word" "HOL-Library.Sublist"
begin

section \<open>The JetStream client of nats.go: data model\<close>

text \<open>
  The development follows \<^verbatim>\<open>src/js.go\<close>. The second file of the repository
  (\<^verbatim>\<open>src/unnamed/part_000\<close>) is an earlier revision of the same code: its
  \<^verbatim>\<open>PublishMsg\<close>, \<^verbatim>\<open>subscribe\<close>, \<^verbatim>\<open>Poll\<close>, \<^verbatim>\<open>ackReply\<close>, \<^verbatim>\<open>MetaData\<close> and
  \<^verbatim>\<open>parseNum\<close> have the same branches, and it declares the wire types
  (\<^verbatim>\<open>PubAck\<close>, \<^verbatim>\<open>ApiError\<close>, \<^verbatim>\<open>ApiResponse\<close>, \<^verbatim>\<open>NextRequest\<close>, the policies)
  that \<^verbatim>\<open>js.go\<close> takes from its \<^verbatim>\<open>jetstream\<close> package; the types are taken from there.

  Strings are byte lists. Go's \<^verbatim>\<open>int\<close>, \<^verbatim>\<open>time.Duration\<close> and \<^verbatim>\<open>time.Time\<close> values
  are only stored and compared here, never computed with, so they are \<open>int\<close>;
  \<^verbatim>\<open>uint64\<close> and the \<^verbatim>\<open>int64\<close> of \<^verbatim>\<open>parseNum\<close>, which is computed with, are
  64-bit words.
\<close>

text \<open>
  The sentinel errors the file returns, \<^verbatim>\<open>errors.New(description)\<close>, errors of
  other packages (JSON, transport), and the run-time panic of a nil dereference.
\<close>

datatype nats_error =
    ErrContextAndTimeout
  | ErrNoResponders
  | ErrNoStreamResponse
  | ErrInvalidJSAck
  | ErrPullModeNotAllowed
  | ErrDirectModeRequired
  | ErrSubjectMismatch
  | ErrJetStreamNotEnabled
  | ErrNoMatchingStream
  | ErrTypeSubscription
  | ErrMsgNoReply
  | ErrMsgNotBound
  | ErrNotJSMessage
  | errors_New string
  | ErrOther string
  | PanicNilDereference

text \<open>\<^verbatim>\<open>type js struct\<close>; the connection \<^verbatim>\<open>nc\<close> is the environment below.\<close>

record js =
  pre :: string
  wait :: int
  direct :: bool

datatype AckPolicy = AckNone | AckAll | AckExplicit | ackPolicyNotSet

datatype DeliverPolicy =
  DeliverAll | DeliverLast | DeliverNew | DeliverByStartSequence | DeliverByStartTime

datatype ReplayPolicy = ReplayInstant | ReplayOriginal

record ConsumerConfig =
  Durable :: string
  DeliverSubject :: string
  DeliverPolicy :: DeliverPolicy
  OptStartSeq :: "64 word"
  OptStartTime :: "int option"
  AckPolicy :: AckPolicy
  AckWait :: int
  MaxDeliver :: int
  FilterSubject :: string
  ReplayPolicy :: ReplayPolicy
  RateLimit :: "64 word"
  SampleFrequency :: string
  MaxWaiting :: int
  MaxAckPending :: int

record SequencePair =
  Consumer :: "64 word"
  Stream :: "64 word"

record ConsumerInfo =
  Stream :: string
  Name :: string
  Created :: int
  Config :: ConsumerConfig
  Delivered :: SequencePair
  AckFloor :: SequencePair
  NumAckPending :: int
  NumRedelivered :: int
  NumWaiting :: int
  NumPending :: "64 word"

record ApiError =
  Code :: int
  Description :: string

record ApiResponse =
  Type :: string
  Error :: "ApiError option"

text \<open>The embedded pointers \<^verbatim>\<open>*ConsumerInfo\<close> and \<^verbatim>\<open>*PubAck\<close> may be nil.\<close>

record JSApiConsumerResponse = ApiResponse +
  ConsumerInfo :: "ConsumerInfo option"

record PubAck =
  Stream :: string
  Sequence :: "64 word"
  Duplicate :: bool

record PubAckResponse = ApiResponse +
  PubAck :: "PubAck option"

record JSApiStreamNamesResponse = ApiResponse +
  Streams :: "string list"

record JSApiCreateConsumerRequest =
  Stream :: string
  Config :: ConsumerConfig

text \<open>\<^verbatim>\<open>type subOpts struct\<close> (js.go 594-603); \<^verbatim>\<open>cfg\<close> is the pointed-to configuration.\<close>

record subOpts =
  stream :: string
  consumer :: string
  pull :: int
  mack :: bool
  cfg :: ConsumerConfig

text \<open>\<^verbatim>\<open>type jsSub struct\<close> (the per-subscription binding) and the subscription.\<close>

record jsSub =
  js :: js
  consumer :: string
  stream :: string
  deliver :: string
  pull :: int

record Subscription =
  sid :: nat
  Subject :: string
  Queue :: string
  jsi :: "jsSub option"

type_synonym Header = "(string \<times> string list) list"

record Msg =
  Subject :: string
  Reply :: string
  Header :: "Header option"
  Data :: string
  Sub :: "Subscription option"

text \<open>
  A message handler is a user callback, or the wrapper
  \<^verbatim>\<open>func(m *Msg) { ocb(m); m.Ack() }\<close> that \<^verbatim>\<open>subscribe\<close> puts around one.
\<close>

datatype MsgHandler = Handler nat | AckAfter MsgHandler

text \<open>\<^verbatim>\<open>ContextOpt\<close> embeds a \<^verbatim>\<open>context.Context\<close>, which may be nil.\<close>

datatype ContextOpt = ContextOpt "nat option"

section \<open>The connection\<close>

text \<open>
  Modelled from the spec: the messaging substrate (\<^verbatim>\<open>Conn.Request\<close>, \<^verbatim>\<open>RequestMsg\<close>,
  \<^verbatim>\<open>RequestMsgWithContext\<close>, \<^verbatim>\<open>Publish\<close>, \<^verbatim>\<open>PublishRequest\<close>, \<^verbatim>\<open>subscribe\<close>,
  \<^verbatim>\<open>Subscription.Unsubscribe\<close>, \<^verbatim>\<open>PendingLimits\<close>, \<^verbatim>\<open>NewInbox\<close>) is not in the
  source files; the spec lists it as the required services
  \<open>request(subject, payload, timeout) -> response-or-error\<close>, \<open>publish\<close>,
  \<open>subscribe -> subscriptionHandle\<close>, \<open>unsubscribe(handle)\<close>. Every call on the
  connection is recorded as an event of a trace, in order; what the call
  returns is a parameter (an oracle) that may depend on the whole trace so far.
\<close>

datatype event =
    EvRequest string string int
  | EvRequestMsg Msg int
  | EvRequestMsgWithContext "ContextOpt option" Msg
  | EvPublish string string
  | EvPublishRequest string string string
  | EvSubscribe string string "MsgHandler option" "nat option" bool
  | EvUnsubscribe nat

text \<open>
  The environment: the answers of the connection, and \<^verbatim>\<open>encoding/json\<close> on the
  wire structures (which the spec leaves out as plain serialization).
\<close>

record env =
  reply_of :: "event list \<Rightarrow> event \<Rightarrow> nats_error + string"
  result_of :: "event list \<Rightarrow> event \<Rightarrow> nats_error option"
  NewInbox :: "event list \<Rightarrow> string"
  PendingLimits :: "Subscription \<Rightarrow> int"
  marshal_streamRequest :: "string \<Rightarrow> nats_error + string"
  marshal_CreateConsumerRequest :: "JSApiCreateConsumerRequest \<Rightarrow> nats_error + string"
  unmarshal_PubAckResponse :: "string \<Rightarrow> nats_error + PubAckResponse"
  unmarshal_ConsumerResponse :: "string \<Rightarrow> nats_error + JSApiConsumerResponse"
  unmarshal_StreamNamesResponse :: "string \<Rightarrow> nats_error + JSApiStreamNamesResponse"

text \<open>\<^verbatim>\<open>nc.Request(subj, data, timeout)\<close>: the response's data, or an error.\<close>

definition Request ::
  "env \<Rightarrow> event list \<Rightarrow> string \<Rightarrow> string \<Rightarrow> int \<Rightarrow> (nats_error + string) \<times> event list" where
  "Request e tr subj data timeout =
     (reply_of e tr (EvRequest subj data timeout), tr @ [EvRequest subj data timeout])"

definition RequestMsg ::
  "env \<Rightarrow> event list \<Rightarrow> Msg \<Rightarrow> int \<Rightarrow> (nats_error + string) \<times> event list" where
  "RequestMsg e tr m timeout =
     (reply_of e tr (EvRequestMsg m timeout), tr @ [EvRequestMsg m timeout])"

definition RequestMsgWithContext ::
  "env \<Rightarrow> event list \<Rightarrow> ContextOpt option \<Rightarrow> Msg \<Rightarrow> (nats_error + string) \<times> event list" where
  "RequestMsgWithContext e tr c m =
     (reply_of e tr (EvRequestMsgWithContext c m), tr @ [EvRequestMsgWithContext c m])"

definition Publish ::
  "env \<Rightarrow> event list \<Rightarrow> string \<Rightarrow> string \<Rightarrow> nats_error option \<times> event list" where
  "Publish e tr subj data = (result_of e tr (EvPublish subj data), tr @ [EvPublish subj data])"

definition PublishRequest ::
  "env \<Rightarrow> event list \<Rightarrow> string \<Rightarrow> string \<Rightarrow> string \<Rightarrow> nats_error option \<times> event list" where
  "PublishRequest e tr subj reply data =
     (result_of e tr (EvPublishRequest subj reply data), tr @ [EvPublishRequest subj reply data])"

text \<open>
  \<^verbatim>\<open>nc.subscribe(subj, queue, cb, ch, isSync, &jsSub{js: js})\<close>: the new subscription
  listens on \<open>subj\<close> and carries the fresh binding; its handle \<open>sid\<close> is the position
  of its event in the trace.
\<close>

definition nc_subscribe ::
  "env \<Rightarrow> event list \<Rightarrow> string \<Rightarrow> string \<Rightarrow> MsgHandler option \<Rightarrow> nat option \<Rightarrow> bool \<Rightarrow> js
     \<Rightarrow> (nats_error + Subscription) \<times> event list" where
  "nc_subscribe e tr subj queue cb ch isSync jsc =
     (case result_of e tr (EvSubscribe subj queue cb ch isSync) of
        Some err \<Rightarrow> Inl err
      | None \<Rightarrow> Inr \<lparr>sid = length tr, Subject = subj, Queue = queue,
                     jsi = Some \<lparr>js = jsc, consumer = [], stream = [], deliver = [], pull = 0\<rparr>\<rparr>,
      tr @ [EvSubscribe subj queue cb ch isSync])"

text \<open>\<^verbatim>\<open>sub.Unsubscribe()\<close>; every caller in this file drops its result.\<close>

definition Unsubscribe :: "env \<Rightarrow> event list \<Rightarrow> Subscription \<Rightarrow> nats_error option \<times> event list" where
  "Unsubscribe e tr sub = (result_of e tr (EvUnsubscribe (sid sub)), tr @ [EvUnsubscribe (sid sub)])"

section \<open>Subject router\<close>

definition apiSubj :: "js \<Rightarrow> string \<Rightarrow> string" where
  "apiSubj jsc subj = (if pre jsc = [] then subj else pre jsc @ subj)"

definition JSApiStreams :: string where
  "JSApiStreams = ''STREAM.NAMES''"

definition JSApiConsumerCreateT :: "string \<Rightarrow> string" where
  "JSApiConsumerCreateT s = ''CONSUMER.CREATE.'' @ s"

definition JSApiDurableCreateT :: "string \<Rightarrow> string \<Rightarrow> string" where
  "JSApiDurableCreateT s d = ''CONSUMER.DURABLE.CREATE.'' @ s @ ''.'' @ d"

definition JSApiConsumerInfoT :: "string \<Rightarrow> string \<Rightarrow> string" where
  "JSApiConsumerInfoT s c = ''CONSUMER.INFO.'' @ s @ ''.'' @ c"

definition JSApiRequestNextT :: "string \<Rightarrow> string \<Rightarrow> string" where
  "JSApiRequestNextT s c = ''CONSUMER.MSG.NEXT.'' @ s @ ''.'' @ c"

section \<open>Ack codec\<close>

definition AckAck :: string where "AckAck = ''+ACK''"
definition AckNak :: string where "AckNak = ''-NAK''"
definition AckProgress :: string where "AckProgress = ''+WPI''"
definition AckNext :: string where "AckNext = ''+NXT''"
definition AckTerm :: string where "AckTerm = ''+TERM''"

text \<open>The literal \<^verbatim>\<open>[]byte("+NXT {\"batch\":1}")\<close> of \<^verbatim>\<open>ackReply\<close>.\<close>

definition next_batch_1 :: string where
  \<open>next_batch_1 = ''+NXT {"batch":1}''\<close>

text \<open>
  \<^verbatim>\<open>checkReply\<close> (js.go 755-773). The receiver is a pointer: on nil, the first
  statement \<^verbatim>\<open>m.Reply == ""\<close> dereferences it and panics, so the later test
  \<^verbatim>\<open>m == nil\<close> is never true when it is reached.
\<close>

definition checkReply :: "Msg option \<Rightarrow> nats_error + (js \<times> bool)" where
  "checkReply mo =
     (case mo of
        None \<Rightarrow> Inl PanicNilDereference
      | Some m \<Rightarrow>
          if Reply m = [] then Inl ErrMsgNoReply
          else (case Sub m of
                  None \<Rightarrow> Inl ErrMsgNotBound
                | Some sub \<Rightarrow>
                    (case jsi sub of
                       None \<Rightarrow> Inl ErrNotJSMessage
                     | Some j \<Rightarrow> Inr (js j, 0 < pull j))))"

text \<open>
  \<^verbatim>\<open>ackReply\<close> (js.go 776-796). After \<^verbatim>\<open>checkReply\<close> has succeeded the message and
  its subscription are not nil; the two \<open>None\<close> branches below are the panics the
  dereferences \<^verbatim>\<open>m.Reply\<close> and \<^verbatim>\<open>m.Sub.Subject\<close> would be, and are not reached.
\<close>

definition ackReply ::
  "env \<Rightarrow> event list \<Rightarrow> Msg option \<Rightarrow> string \<Rightarrow> bool \<Rightarrow> nats_error option \<times> event list" where
  "ackReply e tr mo ackType sync =
     (case checkReply mo of
        Inl err \<Rightarrow> (Some err, tr)
      | Inr (jsc, isPullMode) \<Rightarrow>
          (case mo of
             None \<Rightarrow> (Some PanicNilDereference, tr)
           | Some m \<Rightarrow>
               if isPullMode then
                 (case Sub m of
                    None \<Rightarrow> (Some PanicNilDereference, tr)
                  | Some sub \<Rightarrow>
                      let (err, tr1) =
                            (if ackType = AckAck then
                               PublishRequest e tr (Reply m) (Subscription.Subject sub) AckNext
                             else if ackType = AckNak \<or> ackType = AckTerm then
                               PublishRequest e tr (Reply m) (Subscription.Subject sub) next_batch_1
                             else (None, tr))
                      in if sync \<and> err = None then
                           (let (r, tr2) = Request e tr1 (Reply m) [] (wait jsc)
                            in (case r of Inl err2 \<Rightarrow> Some err2 | Inr _ \<Rightarrow> None, tr2))
                         else (err, tr1))
               else if sync then
                 (let (r, tr1) = Request e tr (Reply m) ackType (wait jsc)
                  in (case r of Inl err \<Rightarrow> Some err | Inr _ \<Rightarrow> None, tr1))
               else Publish e tr (Reply m) ackType))"

definition Ack :: "env \<Rightarrow> event list \<Rightarrow> Msg option \<Rightarrow> nats_error option \<times> event list" where
  "Ack e tr mo = ackReply e tr mo AckAck False"

definition AckSync :: "env \<Rightarrow> event list \<Rightarrow> Msg option \<Rightarrow> nats_error option \<times> event list" where
  "AckSync e tr mo = ackReply e tr mo AckAck True"

definition Nak :: "env \<Rightarrow> event list \<Rightarrow> Msg option \<Rightarrow> nats_error option \<times> event list" where
  "Nak e tr mo = ackReply e tr mo AckNak False"

definition Term :: "env \<Rightarrow> event list \<Rightarrow> Msg option \<Rightarrow> nats_error option \<times> event list" where
  "Term e tr mo = ackReply e tr mo AckTerm False"

definition InProgress :: "env \<Rightarrow> event list \<Rightarrow> Msg option \<Rightarrow> nats_error option \<times> event list" where
  "InProgress e tr mo = ackReply e tr mo AckProgress False"

subsection \<open>Metadata decoding\<close>

text \<open>
  \<^verbatim>\<open>parseNum\<close> (js.go 868-886). \<^verbatim>\<open>for _, dec := range d\<close> walks the runes of the
  string; here it walks the bytes. The two agree on the result: a byte below
  \<open>0x80\<close> is a rune of its own, and at the first byte from \<open>0x80\<close> on the rune Go
  decodes there (a code point from \<open>0x80\<close> on, or \<open>U+FFFD\<close>) is above \<^verbatim>\<open>asciiNine\<close>
  as the byte is, so both return \<open>-1\<close> at that place. The arithmetic is
  \<^verbatim>\<open>int64\<close>, which wraps around in Go.
\<close>

fun parseNum_loop :: "string \<Rightarrow> 64 word \<Rightarrow> 64 word" where
  "parseNum_loop [] n = n"
| "parseNum_loop (dec # d) n =
     (if (of_char dec :: nat) < 48 \<or> (of_char dec :: nat) > 57 then - 1
      else parseNum_loop d (n * 10 + (of_nat (of_char dec) - 48)))"

definition parseNum :: "string \<Rightarrow> 64 word" where
  "parseNum d = (if length d = 0 then - 1 else parseNum_loop d 0)"

record MsgMetaData =
  Consumer :: "64 word"
  Stream :: "64 word"
  Delivered :: "64 word"
  Pending :: "64 word"
  Timestamp :: int

text \<open>
  The tokenizer loop of \<^verbatim>\<open>MetaData\<close> (js.go 843-851): \<open>i\<close> is the loop index,
  \<open>start\<close> the start of the current token, \<^verbatim>\<open>subject[start:i]\<close> is
  \<open>take (i - start) (drop start subject)\<close>.
\<close>

function tokens_loop :: "string \<Rightarrow> nat \<Rightarrow> nat \<Rightarrow> string list \<Rightarrow> string list" where
  "tokens_loop subject i start tokens =
     (if i < length subject then
        (if subject ! i = CHR ''.'' then
           tokens_loop subject (i + 1) (i + 1) (tokens @ [take (i - start) (drop start subject)])
         else tokens_loop subject (i + 1) start tokens)
      else tokens @ [drop start subject])"
  by pat_completeness auto
termination
  by (relation "measure (\<lambda>(subject, i, start, tokens). length subject - i)") auto

text \<open>
  \<^verbatim>\<open>MetaData\<close> (js.go 834-865). The \<^verbatim>\<open>uint64(...)\<close> conversions keep the 64 bits of
  the \<^verbatim>\<open>int64\<close>; \<^verbatim>\<open>time.Unix(0, n)\<close> is the instant \<open>n\<close> nanoseconds from the epoch,
  kept as that signed number.
\<close>

definition MetaData :: "Msg option \<Rightarrow> nats_error + MsgMetaData" where
  "MetaData mo =
     (case checkReply mo of
        Inl err \<Rightarrow> Inl err
      | Inr _ \<Rightarrow>
          (case mo of
             None \<Rightarrow> Inl PanicNilDereference
           | Some m \<Rightarrow>
               let tokens = tokens_loop (Reply m) 0 0 []
               in if length tokens \<noteq> 9 \<or> tokens ! 0 \<noteq> ''$JS'' \<or> tokens ! 1 \<noteq> ''ACK''
                  then Inl ErrNotJSMessage
                  else Inr \<lparr>Consumer = parseNum (tokens ! 6),
                            Stream = parseNum (tokens ! 5),
                            Delivered = parseNum (tokens ! 4),
                            Pending = parseNum (tokens ! 8),
                            Timestamp = sint (parseNum (tokens ! 7))\<rparr>))"


section \<open>Pull driver\<close>

text \<open>Decimal rendering, as \<^verbatim>\<open>strconv.FormatUint(u, 10)\<close> and the JSON encoder do it.\<close>

function digits_of :: "nat \<Rightarrow> string" where
  "digits_of n = (if n < 10 then [char_of (48 + n)]
                  else digits_of (n div 10) @ [char_of (48 + n mod 10)])"
  by pat_completeness auto
termination
  by (relation "measure (\<lambda>n. n)") auto

definition FormatUint :: "64 word \<Rightarrow> string" where
  "FormatUint u = digits_of (unat u)"

definition json_int :: "int \<Rightarrow> string" where
  "json_int n = (if n < 0 then ''-'' @ digits_of (nat (- n)) else digits_of (nat n))"

text \<open>
  \<^verbatim>\<open>json.Marshal(&NextRequest{Batch: batch})\<close>: all three fields of \<^verbatim>\<open>NextRequest\<close>
  are \<^verbatim>\<open>omitempty\<close> (part_000 268-273), \<^verbatim>\<open>Expires\<close> is nil and \<^verbatim>\<open>NoWait\<close> false.
\<close>

definition marshal_NextRequest :: "int \<Rightarrow> string" where
  \<open>marshal_NextRequest batch =
     (if batch = 0 then ''{}'' else ''{"batch":'' @ json_int batch @ ''}'')\<close>

text \<open>\<^verbatim>\<open>Poll\<close> (js.go 717-732).\<close>

definition Poll :: "env \<Rightarrow> event list \<Rightarrow> Subscription \<Rightarrow> nats_error option \<times> event list" where
  "Poll e tr sub =
     (case jsi sub of
        None \<Rightarrow> (Some ErrTypeSubscription, tr)
      | Some j \<Rightarrow>
          if deliver j \<noteq> [] \<or> pull j = 0 then (Some ErrTypeSubscription, tr)
          else PublishRequest e tr
                 (apiSubj (js j) (JSApiRequestNextT (jsSub.stream j) (jsSub.consumer j)))
                 (Subscription.Subject sub)
                 (marshal_NextRequest (pull j)))"

section \<open>Binding a subscription to a consumer\<close>

text \<open>\<^verbatim>\<open>getConsumerInfo\<close> (js.go 734-753); the result \<^verbatim>\<open>info.ConsumerInfo\<close> may be nil.\<close>

definition getConsumerInfo ::
  "env \<Rightarrow> js \<Rightarrow> event list \<Rightarrow> string \<Rightarrow> string
     \<Rightarrow> (nats_error + ConsumerInfo option) \<times> event list" where
  "getConsumerInfo e jsc tr stream' consumer' =
     (let (r, tr1) = Request e tr (apiSubj jsc (JSApiConsumerInfoT stream' consumer')) [] (wait jsc)
      in case r of
           Inl err \<Rightarrow> (Inl (if err = ErrNoResponders then ErrJetStreamNotEnabled else err), tr1)
         | Inr data \<Rightarrow>
             (case unmarshal_ConsumerResponse e data of
                Inl err \<Rightarrow> (Inl err, tr1)
              | Inr info \<Rightarrow>
                  (case Error info of
                     Some ae \<Rightarrow> (Inl (errors_New (Description ae)), tr1)
                   | None \<Rightarrow> (Inr (ConsumerInfo info), tr1))))"

text \<open>\<^verbatim>\<open>lookupStreamBySubject\<close> (js.go 570-592).\<close>

definition lookupStreamBySubject ::
  "env \<Rightarrow> js \<Rightarrow> event list \<Rightarrow> string \<Rightarrow> (nats_error + string) \<times> event list" where
  "lookupStreamBySubject e jsc tr subj =
     (case marshal_streamRequest e subj of
        Inl err \<Rightarrow> (Inl err, tr)
      | Inr j \<Rightarrow>
          (let (r, tr1) = Request e tr (apiSubj jsc JSApiStreams) j (wait jsc)
           in case r of
                Inl err \<Rightarrow> (Inl (if err = ErrNoResponders then ErrJetStreamNotEnabled else err), tr1)
              | Inr data \<Rightarrow>
                  (case unmarshal_StreamNamesResponse e data of
                     Inl err \<Rightarrow> (Inl err, tr1)
                   | Inr slr \<Rightarrow>
                       if Error slr \<noteq> None \<or> length (Streams slr) \<noteq> 1
                       then (Inl ErrNoMatchingStream, tr1)
                       else (Inr (Streams slr ! 0), tr1))))"

text \<open>The options of js.go 605-700.\<close>

datatype SubOpt =
    DurableOpt string
  | AttachOpt string string
  | PullOpt int
  | PullDirectOpt string string int
  | PushDirectOpt string
  | ManualAckOpt
  | DeliverAllOpt
  | DeliverLastOpt
  | DeliverNewOpt
  | StartSequenceOpt "64 word"
  | StartTimeOpt int

fun configureSubscribe :: "SubOpt \<Rightarrow> subOpts \<Rightarrow> nats_error + subOpts" where
  "configureSubscribe (DurableOpt name) os = Inr (os\<lparr>cfg := (cfg os)\<lparr>Durable := name\<rparr>\<rparr>)"
| "configureSubscribe (AttachOpt s c) os = Inr (os\<lparr>subOpts.stream := s, subOpts.consumer := c\<rparr>)"
| "configureSubscribe (PullOpt batchSize) os =
     (if batchSize = 0 then Inl (errors_New ''nats: batch size of 0 not valid'')
      else Inr (os\<lparr>subOpts.pull := batchSize\<rparr>))"
| "configureSubscribe (PullDirectOpt s c batchSize) os =
     (if batchSize = 0 then Inl (errors_New ''nats: batch size of 0 not valid'')
      else Inr (os\<lparr>subOpts.stream := s, subOpts.consumer := c, subOpts.pull := batchSize\<rparr>))"
| "configureSubscribe (PushDirectOpt deliverSubject) os =
     Inr (os\<lparr>cfg := (cfg os)\<lparr>DeliverSubject := deliverSubject\<rparr>\<rparr>)"
| "configureSubscribe ManualAckOpt os = Inr (os\<lparr>mack := True\<rparr>)"
| "configureSubscribe DeliverAllOpt os = Inr (os\<lparr>cfg := (cfg os)\<lparr>DeliverPolicy := DeliverAll\<rparr>\<rparr>)"
| "configureSubscribe DeliverLastOpt os = Inr (os\<lparr>cfg := (cfg os)\<lparr>DeliverPolicy := DeliverLast\<rparr>\<rparr>)"
| "configureSubscribe DeliverNewOpt os = Inr (os\<lparr>cfg := (cfg os)\<lparr>DeliverPolicy := DeliverNew\<rparr>\<rparr>)"
| "configureSubscribe (StartSequenceOpt sq) os =
     Inr (os\<lparr>cfg := (cfg os)\<lparr>DeliverPolicy := DeliverByStartSequence, OptStartSeq := sq\<rparr>\<rparr>)"
| "configureSubscribe (StartTimeOpt startTime) os =
     Inr (os\<lparr>cfg := (cfg os)\<lparr>DeliverPolicy := DeliverByStartTime, OptStartTime := Some startTime\<rparr>\<rparr>)"

text \<open>The loop over the options (js.go 423-429) stops at the first error.\<close>

fun apply_SubOpts :: "SubOpt list \<Rightarrow> subOpts \<Rightarrow> nats_error + subOpts" where
  "apply_SubOpts [] os = Inr os"
| "apply_SubOpts (opt # opts) os =
     (case configureSubscribe opt os of
        Inl err \<Rightarrow> Inl err
      | Inr os1 \<Rightarrow> apply_SubOpts opts os1)"

text \<open>The zero value of \<^verbatim>\<open>ConsumerConfig\<close>, and the options record of js.go 421-422.\<close>

definition zero_ConsumerConfig :: ConsumerConfig where
  "zero_ConsumerConfig =
     \<lparr>Durable = [], DeliverSubject = [], DeliverPolicy = DeliverAll, OptStartSeq = 0,
      OptStartTime = None, AckPolicy = AckNone, AckWait = 0, MaxDeliver = 0,
      FilterSubject = [], ReplayPolicy = ReplayInstant, RateLimit = 0,
      SampleFrequency = [], MaxWaiting = 0, MaxAckPending = 0\<rparr>"

definition initial_subOpts :: subOpts where
  "initial_subOpts =
     \<lparr>subOpts.stream = [], consumer = [], pull = 0, mack = False,
      cfg = zero_ConsumerConfig\<lparr>AckPolicy := ackPolicyNotSet\<rparr>\<rparr>"

text \<open>
  js.go 441: \<^verbatim>\<open>&&\<close> binds tighter than \<^verbatim>\<open>||\<close>. In js.go \<^verbatim>\<open>o.cfg\<close> points to the
  local \<^verbatim>\<open>cfg\<close>, so the two are one object, kept inside the options record.
\<close>

definition shouldAttach :: "subOpts \<Rightarrow> bool" where
  "shouldAttach os =
     (subOpts.stream os \<noteq> [] \<and> subOpts.consumer os \<noteq> [] \<or> DeliverSubject (cfg os) \<noteq> [])"

text \<open>
  js.go 448-481: the three ways to the stream and the local delivery subject.
  The result is \<open>(stream, deliver, ccfg, options)\<close>. On the attach path
  \<^verbatim>\<open>&info.Config\<close> panics when the response carried no consumer info.
\<close>

definition subscribe_resolve ::
  "env \<Rightarrow> js \<Rightarrow> event list \<Rightarrow> string \<Rightarrow> subOpts
     \<Rightarrow> (nats_error + string \<times> string \<times> ConsumerConfig option \<times> subOpts) \<times> event list" where
  "subscribe_resolve e jsc tr subj os =
     (if direct jsc then
        (Inr ([], if DeliverSubject (cfg os) \<noteq> [] then DeliverSubject (cfg os) else NewInbox e tr,
              None, os), tr)
      else if shouldAttach os then
        (let (r, tr1) = getConsumerInfo e jsc tr (subOpts.stream os) (subOpts.consumer os)
         in case r of
              Inl err \<Rightarrow> (Inl err, tr1)
            | Inr None \<Rightarrow> (Inl PanicNilDereference, tr1)
            | Inr (Some info) \<Rightarrow>
                (let ccfg = ConsumerInfo.Config info
                 in if FilterSubject ccfg \<noteq> [] \<and> subj \<noteq> FilterSubject ccfg
                    then (Inl ErrSubjectMismatch, tr1)
                    else (Inr ([], if DeliverSubject ccfg \<noteq> [] then DeliverSubject ccfg
                                   else NewInbox e tr1,
                               Some ccfg, os), tr1)))
      else
        (let (r, tr1) = lookupStreamBySubject e jsc tr subj
         in case r of
              Inl err \<Rightarrow> (Inl err, tr1)
            | Inr stream' \<Rightarrow>
                (let deliver' = NewInbox e tr1;
                     cfg1 = (if \<not> 0 < subOpts.pull os then (cfg os)\<lparr>DeliverSubject := deliver'\<rparr>
                             else cfg os);
                     cfg2 = cfg1\<lparr>FilterSubject := subj\<rparr>
                 in (Inr (stream', deliver', None, os\<lparr>cfg := cfg2\<rparr>), tr1))))"

text \<open>
  js.go 498-508: the defaults of the configuration to create. Without an ack
  policy it is explicit; with acknowledgments and no limit of its own,
  \<^verbatim>\<open>MaxAckPending\<close> is the pending-message limit of the local subscription.
\<close>

definition create_config :: "env \<Rightarrow> Subscription \<Rightarrow> ConsumerConfig \<Rightarrow> ConsumerConfig" where
  "create_config e sub cfg0 =
     (let cfg1 = (if AckPolicy cfg0 = ackPolicyNotSet then cfg0\<lparr>AckPolicy := AckExplicit\<rparr> else cfg0)
      in if MaxAckPending cfg1 = 0 \<and> AckPolicy cfg1 \<noteq> AckNone
         then cfg1\<lparr>MaxAckPending := PendingLimits e sub\<rparr> else cfg1)"

text \<open>js.go 520-525: the subject of the create request, durable or ephemeral.\<close>

definition create_subject :: "string \<Rightarrow> ConsumerConfig \<Rightarrow> string" where
  "create_subject stream' cfg2 =
     (if Durable cfg2 \<noteq> [] then JSApiDurableCreateT stream' (Durable cfg2)
      else JSApiConsumerCreateT stream')"

text \<open>
  js.go 497-550, the create branch after the local subscription exists. The
  result of \<^verbatim>\<open>sub.Unsubscribe()\<close> is dropped. \<^verbatim>\<open>info.Stream\<close> goes through the
  embedded pointer and panics when it is nil.
\<close>

definition subscribe_create ::
  "env \<Rightarrow> js \<Rightarrow> event list \<Rightarrow> Subscription \<Rightarrow> string \<Rightarrow> ConsumerConfig
     \<Rightarrow> (nats_error + Subscription) \<times> event list" where
  "subscribe_create e jsc tr sub stream' cfg0 =
     (let cfg2 = create_config e sub cfg0
      in case marshal_CreateConsumerRequest e
                \<lparr>JSApiCreateConsumerRequest.Stream = stream', Config = cfg2\<rparr> of
           Inl err \<Rightarrow> (Inl err, tr)
         | Inr j \<Rightarrow>
             (let (r, tr1) = Request e tr (apiSubj jsc (create_subject stream' cfg2)) j (wait jsc)
              in case r of
                   Inl err \<Rightarrow>
                     (Inl (if err = ErrNoResponders then ErrJetStreamNotEnabled else err),
                      snd (Unsubscribe e tr1 sub))
                 | Inr data \<Rightarrow>
                     (case unmarshal_ConsumerResponse e data of
                        Inl err \<Rightarrow> (Inl err, snd (Unsubscribe e tr1 sub))
                      | Inr info \<Rightarrow>
                          (case Error info of
                             Some ae \<Rightarrow>
                               (Inl (errors_New (Description ae)), snd (Unsubscribe e tr1 sub))
                           | None \<Rightarrow>
                               (case (ConsumerInfo info, jsi sub) of
                                  (Some ci, Some j) \<Rightarrow>
                                    (Inr (sub\<lparr>jsi := Some (j\<lparr>jsSub.stream := ConsumerInfo.Stream ci,
                                                             jsSub.consumer := Name ci,
                                                             deliver := DeliverSubject (ConsumerInfo.Config ci)\<rparr>)\<rparr>),
                                     tr1)
                                | _ \<Rightarrow> (Inl PanicNilDereference, tr1))))))"

text \<open>js.go 551-559, the other branch: the identifiers come from the options.\<close>

definition subscribe_existing ::
  "js \<Rightarrow> Subscription \<Rightarrow> subOpts \<Rightarrow> ConsumerConfig option \<Rightarrow> nats_error + Subscription" where
  "subscribe_existing jsc sub os ccfg =
     (case jsi sub of
        None \<Rightarrow> Inl PanicNilDereference
      | Some j \<Rightarrow>
          if direct jsc then
            Inr (sub\<lparr>jsi := Some (j\<lparr>jsSub.stream := subOpts.stream os,
                                     jsSub.consumer := subOpts.consumer os,
                                     deliver := DeliverSubject (cfg os)\<rparr>)\<rparr>)
          else
            (case ccfg of
               None \<Rightarrow> Inl PanicNilDereference
             | Some c \<Rightarrow>
                 Inr (sub\<lparr>jsi := Some (j\<lparr>jsSub.stream := subOpts.stream os,
                                          jsSub.consumer := subOpts.consumer os,
                                          deliver := DeliverSubject c\<rparr>)\<rparr>)))"

text \<open>
  js.go 483-567, after stream and delivery subject are resolved: the callback
  wrapper, the local subscription, the create request or the identifiers of the
  existing consumer, and the first poll in pull mode, whose error is dropped.
  \<open>cb\<close> is the callback (\<open>None\<close> for nil), \<open>ch\<close> the channel.
\<close>

definition subscribe_finish ::
  "env \<Rightarrow> js \<Rightarrow> event list \<Rightarrow> string \<Rightarrow> MsgHandler option \<Rightarrow> nat option \<Rightarrow> bool
     \<Rightarrow> string \<Rightarrow> string \<Rightarrow> ConsumerConfig option \<Rightarrow> subOpts
     \<Rightarrow> (nats_error + Subscription) \<times> event list" where
  "subscribe_finish e jsc tr1 queue cb ch shouldCreate stream' deliver' ccfg os1 =
     (let cb1 = (case cb of
                   None \<Rightarrow> None
                 | Some ocb \<Rightarrow> if \<not> mack os1 then Some (AckAfter ocb) else Some ocb)
      in case nc_subscribe e tr1 deliver' queue cb1 ch (cb1 = None) jsc of
           (Inl err, tr2) \<Rightarrow> (Inl err, tr2)
         | (Inr sub, tr2) \<Rightarrow>
             (case (if shouldCreate
                    then subscribe_create e jsc tr2 sub stream' (cfg os1)
                    else (subscribe_existing jsc sub os1 ccfg, tr2)) of
                (Inl err, tr3) \<Rightarrow> (Inl err, tr3)
              | (Inr sub1, tr3) \<Rightarrow>
                  if 0 < subOpts.pull os1 then
                    (case jsi sub1 of
                       None \<Rightarrow> (Inl PanicNilDereference, tr3)
                     | Some j \<Rightarrow>
                         (let sub2 = sub1\<lparr>jsi := Some (j\<lparr>pull := subOpts.pull os1\<rparr>)\<rparr>
                          in (Inr sub2, snd (Poll e tr3 sub2))))
                  else (Inr sub1, tr3)))"

text \<open>
  \<^verbatim>\<open>subscribe\<close> (js.go 420-568): the options, the two configuration checks, then
  the two parts above. \<^verbatim>\<open>shouldAttach\<close> is computed once, from the options as
  the caller gave them.
\<close>

definition subscribe ::
  "env \<Rightarrow> js \<Rightarrow> event list \<Rightarrow> string \<Rightarrow> string \<Rightarrow> MsgHandler option \<Rightarrow> nat option
     \<Rightarrow> SubOpt list \<Rightarrow> (nats_error + Subscription) \<times> event list" where
  "subscribe e jsc tr subj queue cb ch opts =
     (case apply_SubOpts opts initial_subOpts of
        Inl err \<Rightarrow> (Inl err, tr)
      | Inr os \<Rightarrow>
          if cb \<noteq> None \<and> 0 < subOpts.pull os then (Inl ErrPullModeNotAllowed, tr)
          else if direct jsc \<and> \<not> shouldAttach os then (Inl ErrDirectModeRequired, tr)
          else
            (case subscribe_resolve e jsc tr subj os of
               (Inl err, tr1) \<Rightarrow> (Inl err, tr1)
             | (Inr (stream', deliver', ccfg, os1), tr1) \<Rightarrow>
                 subscribe_finish e jsc tr1 queue cb ch (\<not> shouldAttach os)
                   stream' deliver' ccfg os1))"

section \<open>Publish acknowledger\<close>

record pubOpts =
  ctx :: "ContextOpt option"
  ttl :: int
  id' :: string
  lid :: string
  str :: string
  seq :: "64 word"

datatype PubOpt =
    MsgId string
  | ExpectStream string
  | ExpectLastSequence "64 word"
  | ExpectLastMsgId string
  | MaxWait int
  | Context "nat option"

fun configurePublish :: "PubOpt \<Rightarrow> pubOpts \<Rightarrow> nats_error + pubOpts" where
  "configurePublish (MsgId i) os = Inr (os\<lparr>id' := i\<rparr>)"
| "configurePublish (ExpectStream s) os = Inr (os\<lparr>str := s\<rparr>)"
| "configurePublish (ExpectLastSequence sq) os = Inr (os\<lparr>seq := sq\<rparr>)"
| "configurePublish (ExpectLastMsgId i) os = Inr (os\<lparr>lid := i\<rparr>)"
| "configurePublish (MaxWait t) os = Inr (os\<lparr>ttl := t\<rparr>)"
| "configurePublish (Context c) os = Inr (os\<lparr>ctx := Some (ContextOpt c)\<rparr>)"

fun apply_PubOpts :: "PubOpt list \<Rightarrow> pubOpts \<Rightarrow> nats_error + pubOpts" where
  "apply_PubOpts [] os = Inr os"
| "apply_PubOpts (opt # opts) os =
     (case configurePublish opt os of
        Inl err \<Rightarrow> Inl err
      | Inr os1 \<Rightarrow> apply_PubOpts opts os1)"

definition MsgIdHdr :: string where "MsgIdHdr = ''Nats-Msg-Id''"
definition ExpectedStreamHdr :: string where "ExpectedStreamHdr = ''Nats-Expected-Stream''"
definition ExpectedLastSeqHdr :: string where "ExpectedLastSeqHdr = ''Nats-Expected-Last-Sequence''"
definition ExpectedLastMsgIdHdr :: string where "ExpectedLastMsgIdHdr = ''Nats-Expected-Last-Msg-Id''"

text \<open>
  \<^verbatim>\<open>http.Header.Set\<close> replaces the values of the key by the one value (the four
  keys above are in canonical form already); on a nil header the assignment
  panics.
\<close>

fun Header_Set :: "Header \<Rightarrow> string \<Rightarrow> string \<Rightarrow> Header" where
  "Header_Set [] k v = [(k, [v])]"
| "Header_Set ((k1, vs) # h) k v =
     (if k1 = k then (k, [v]) # h else (k1, vs) # Header_Set h k v)"

definition set_header_if :: "bool \<Rightarrow> string \<Rightarrow> string \<Rightarrow> nats_error + Msg \<Rightarrow> nats_error + Msg" where
  "set_header_if c k v r =
     (case r of
        Inl err \<Rightarrow> Inl err
      | Inr m \<Rightarrow>
          if c then
            (case Header m of
               None \<Rightarrow> Inl PanicNilDereference
             | Some h \<Rightarrow> Inr (m\<lparr>Header := Some (Header_Set h k v)\<rparr>))
          else Inr m)"

text \<open>
  js.go 195-225: the options, the collision check, the default deadline, the
  headers. The result is the message to send and the options.
\<close>

definition PublishMsg_prepare :: "js \<Rightarrow> Msg \<Rightarrow> PubOpt list \<Rightarrow> nats_error + Msg \<times> pubOpts" where
  "PublishMsg_prepare jsc m opts =
     (let m0 = (if 0 < length opts \<and> Header m = None then m\<lparr>Header := Some []\<rparr> else m)
      in case apply_PubOpts opts \<lparr>ctx = None, ttl = 0, id' = [], lid = [], str = [], seq = 0\<rparr> of
           Inl err \<Rightarrow> Inl err
         | Inr o1 \<Rightarrow>
             if ctx o1 \<noteq> None \<and> ttl o1 \<noteq> 0 then Inl ErrContextAndTimeout
             else
               (let o2 = (if ttl o1 = 0 \<and> ctx o1 = None then o1\<lparr>ttl := wait jsc\<rparr> else o1)
                in case set_header_if (seq o2 \<noteq> 0) ExpectedLastSeqHdr (FormatUint (seq o2))
                          (set_header_if (str o2 \<noteq> []) ExpectedStreamHdr (str o2)
                            (set_header_if (lid o2 \<noteq> []) ExpectedLastMsgIdHdr (lid o2)
                              (set_header_if (id' o2 \<noteq> []) MsgIdHdr (id' o2) (Inr m0)))) of
                     Inl err \<Rightarrow> Inl err
                   | Inr m1 \<Rightarrow> Inr (m1, o2)))"

text \<open>js.go 230-234: which request is made for the prepared message.\<close>

definition PublishMsg_request :: "Msg \<Rightarrow> pubOpts \<Rightarrow> event" where
  "PublishMsg_request m1 o2 =
     (if 0 < ttl o2 then EvRequestMsg m1 (ttl o2) else EvRequestMsgWithContext (ctx o2) m1)"

text \<open>\<^verbatim>\<open>PublishMsg\<close> (js.go 194-253).\<close>

definition PublishMsg ::
  "env \<Rightarrow> js \<Rightarrow> event list \<Rightarrow> Msg \<Rightarrow> PubOpt list \<Rightarrow> (nats_error + PubAck) \<times> event list" where
  "PublishMsg e jsc tr m opts =
     (case PublishMsg_prepare jsc m opts of
        Inl err \<Rightarrow> (Inl err, tr)
      | Inr (m1, o2) \<Rightarrow>
          (let (r, tr1) = (if 0 < ttl o2 then RequestMsg e tr m1 (ttl o2)
                           else RequestMsgWithContext e tr (ctx o2) m1)
           in case r of
                Inl err \<Rightarrow> (Inl (if err = ErrNoResponders then ErrNoStreamResponse else err), tr1)
              | Inr data \<Rightarrow>
                  (case unmarshal_PubAckResponse e data of
                     Inl err \<Rightarrow> (Inl ErrInvalidJSAck, tr1)
                   | Inr pa \<Rightarrow>
                       (case Error pa of
                          Some ae \<Rightarrow> (Inl (errors_New (Description ae)), tr1)
                        | None \<Rightarrow>
                            (case PubAck pa of
                               None \<Rightarrow> (Inl ErrInvalidJSAck, tr1)
                             | Some p \<Rightarrow>
                                 if PubAck.Stream p = [] then (Inl ErrInvalidJSAck, tr1)
                                 else (Inr p, tr1))))))"

text \<open>\<^verbatim>\<open>Publish\<close> (js.go 255-257).\<close>

definition Publish_js ::
  "env \<Rightarrow> js \<Rightarrow> event list \<Rightarrow> string \<Rightarrow> string \<Rightarrow> PubOpt list \<Rightarrow> (nats_error + PubAck) \<times> event list" where
  "Publish_js e jsc tr subj data opts =
     PublishMsg e jsc tr \<lparr>Subject = subj, Reply = [], Header = None, Data = data, Sub = None\<rparr> opts"


section \<open>Notions of the specification\<close>

text \<open>
  Tokenizing on the separator, as the specification words it: the tokens are the
  maximal runs without a dot. Written by recursion on the string; the loop of
  \<^verbatim>\<open>MetaData\<close> is compared with it below.
\<close>

fun split_dots :: "string \<Rightarrow> string list" where
  "split_dots [] = [[]]"
| "split_dots (c # cs) =
     (if c = CHR ''.'' then [] # split_dots cs
      else (c # hd (split_dots cs)) # tl (split_dots cs))"

text \<open>
  Decoding a token as an unsigned integer, as the specification words it: the
  decimal value of a non-empty token of digits (taken into the 64 bits of the
  field), and the sentinel \<open>-1\<close> for every other token. In a \<^verbatim>\<open>uint64\<close> field
  the sentinel is the word of all ones, \<open>2^64 - 1\<close>.
\<close>

definition is_digit :: "char \<Rightarrow> bool" where
  "is_digit c = (48 \<le> (of_char c :: nat) \<and> (of_char c :: nat) \<le> 57)"

definition decimal :: "string \<Rightarrow> nat" where
  "decimal t = foldl (\<lambda>n c. 10 * n + (of_char c - 48)) 0 t"

definition field_value :: "string \<Rightarrow> 64 word" where
  "field_value t = (if t = [] \<or> (\<exists>c \<in> set t. \<not> is_digit c) then - 1 else of_nat (decimal t))"

text \<open>
  A decoded publish response "lacks both a stream name and a nonzero sequence",
  and "lacks a stream name"; without the embedded \<^verbatim>\<open>PubAck\<close> it lacks everything.
\<close>

definition ack_lacks_both :: "PubAckResponse \<Rightarrow> bool" where
  "ack_lacks_both pa =
     (case PubAck pa of None \<Rightarrow> True | Some p \<Rightarrow> PubAck.Stream p = [] \<and> Sequence p = 0)"

definition ack_lacks_stream :: "PubAckResponse \<Rightarrow> bool" where
  "ack_lacks_stream pa = (case PubAck pa of None \<Rightarrow> True | Some p \<Rightarrow> PubAck.Stream p = [])"

text \<open>
  The remote requests of subscribe, told apart by their subjects: the consumer
  info request of the attach path, the stream lookup and the create-consumer
  request (ephemeral or durable) of the create path.
\<close>

definition is_info_request :: "js \<Rightarrow> event \<Rightarrow> bool" where
  "is_info_request jsc ev =
     (case ev of EvRequest s d t \<Rightarrow> prefix (apiSubj jsc ''CONSUMER.INFO.'') s | _ \<Rightarrow> False)"

definition is_lookup_request :: "js \<Rightarrow> event \<Rightarrow> bool" where
  "is_lookup_request jsc ev =
     (case ev of EvRequest s d t \<Rightarrow> s = apiSubj jsc ''STREAM.NAMES'' | _ \<Rightarrow> False)"

definition is_create_request :: "js \<Rightarrow> event \<Rightarrow> bool" where
  "is_create_request jsc ev =
     (case ev of
        EvRequest s d t \<Rightarrow> prefix (apiSubj jsc ''CONSUMER.CREATE.'') s
                          \<or> prefix (apiSubj jsc ''CONSUMER.DURABLE.CREATE.'') s
      | _ \<Rightarrow> False)"

definition is_request :: "event \<Rightarrow> bool" where
  "is_request ev =
     (case ev of
        EvRequest s d t \<Rightarrow> True
      | EvRequestMsg m t \<Rightarrow> True
      | EvRequestMsgWithContext c m \<Rightarrow> True
      | _ \<Rightarrow> False)"


section \<open>An environment to run the client in\<close>

text \<open>
  A scripted server with one stream \<open>ORD\<close> on the subject \<open>orders\<close>, two existing
  consumers (\<open>C1\<close> pushes to \<open>deliver.C1\<close>, \<open>P1\<close> is pull based), and create
  requests that succeed, are refused, or are answered with garbage, by consumer
  name. The JSON codec is given on the bodies this server sends; the request
  bodies are rendered in short.
\<close>

definition demo_publish_reply :: "string \<Rightarrow> nats_error + string" where
  \<open>demo_publish_reply subj =
     (if subj = ''orders'' then Inr ''{"stream":"ORD","seq":6}''
      else if subj = ''orders.stale''
        then Inr ''{"error":{"code":400,"description":"wrong last sequence"}}''
      else if subj = ''orders.seqonly'' then Inr ''{"seq":6}''
      else if subj = ''orders.noseq'' then Inr ''{"stream":"ORD"}''
      else if subj = ''orders.garbled'' then Inr ''+OK''
      else Inl ErrNoResponders)\<close>

definition demo_api_reply :: "string \<Rightarrow> nats_error + string" where
  \<open>demo_api_reply subj =
     (if subj = ''$JS.API.STREAM.NAMES'' then Inr ''{"streams":["ORD"]}''
      else if subj = ''$JS.API.CONSUMER.CREATE.ORD''
        then Inr ''{"stream_name":"ORD","name":"eph","config":{"deliver_subject":"_INBOX.1"}}''
      else if subj = ''$JS.API.CONSUMER.DURABLE.CREATE.ORD.worker''
        then Inr ''{"stream_name":"ORD","name":"worker","config":{"durable_name":"worker"}}''
      else if subj = ''$JS.API.CONSUMER.DURABLE.CREATE.ORD.taken''
        then Inr ''{"error":{"code":500,"description":"consumer name already in use"}}''
      else if subj = ''$JS.API.CONSUMER.DURABLE.CREATE.ORD.garbled'' then Inr ''+OK''
      else if subj = ''$JS.API.CONSUMER.INFO.ORD.C1''
        then Inr ''{"stream_name":"ORD","name":"C1","config":{"deliver_subject":"deliver.C1","filter_subject":"orders"}}''
      else if subj = ''$JS.API.CONSUMER.INFO.ORD.P1''
        then Inr ''{"stream_name":"ORD","name":"P1","config":{"filter_subject":"orders"}}''
      else Inl ErrNoResponders)\<close>

definition demo_reply_of :: "event list \<Rightarrow> event \<Rightarrow> nats_error + string" where
  "demo_reply_of tr ev =
     (case ev of
        EvRequest subj d t \<Rightarrow> demo_api_reply subj
      | EvRequestMsg m t \<Rightarrow> demo_publish_reply (Msg.Subject m)
      | EvRequestMsgWithContext c m \<Rightarrow> demo_publish_reply (Msg.Subject m)
      | _ \<Rightarrow> Inl ErrNoResponders)"

definition demo_ConsumerInfo :: "string \<Rightarrow> ConsumerConfig \<Rightarrow> ConsumerInfo" where
  "demo_ConsumerInfo n c =
     \<lparr>ConsumerInfo.Stream = ''ORD'', Name = n, Created = 0, Config = c,
      Delivered = \<lparr>SequencePair.Consumer = 0, Stream = 0\<rparr>,
      AckFloor = \<lparr>SequencePair.Consumer = 0, Stream = 0\<rparr>,
      NumAckPending = 0, NumRedelivered = 0, NumWaiting = 0, NumPending = 0\<rparr>"

definition demo_unmarshal_ConsumerResponse :: "string \<Rightarrow> nats_error + JSApiConsumerResponse" where
  \<open>demo_unmarshal_ConsumerResponse d =
     (if d = ''{"stream_name":"ORD","name":"eph","config":{"deliver_subject":"_INBOX.1"}}''
        then Inr \<lparr>Type = [], Error = None,
                  ConsumerInfo = Some (demo_ConsumerInfo ''eph''
                    (zero_ConsumerConfig\<lparr>DeliverSubject := ''_INBOX.1''\<rparr>))\<rparr>
      else if d = ''{"stream_name":"ORD","name":"worker","config":{"durable_name":"worker"}}''
        then Inr \<lparr>Type = [], Error = None,
                  ConsumerInfo = Some (demo_ConsumerInfo ''worker''
                    (zero_ConsumerConfig\<lparr>Durable := ''worker''\<rparr>))\<rparr>
      else if d = ''{"error":{"code":500,"description":"consumer name already in use"}}''
        then Inr \<lparr>Type = [],
                  Error = Some \<lparr>Code = 500, Description = ''consumer name already in use''\<rparr>,
                  ConsumerInfo = None\<rparr>
      else if d = ''{"stream_name":"ORD","name":"C1","config":{"deliver_subject":"deliver.C1","filter_subject":"orders"}}''
        then Inr \<lparr>Type = [], Error = None,
                  ConsumerInfo = Some (demo_ConsumerInfo ''C1''
                    (zero_ConsumerConfig\<lparr>DeliverSubject := ''deliver.C1'',
                                          FilterSubject := ''orders''\<rparr>))\<rparr>
      else if d = ''{"stream_name":"ORD","name":"P1","config":{"filter_subject":"orders"}}''
        then Inr \<lparr>Type = [], Error = None,
                  ConsumerInfo = Some (demo_ConsumerInfo ''P1''
                    (zero_ConsumerConfig\<lparr>FilterSubject := ''orders''\<rparr>))\<rparr>
      else Inl (ErrOther ''invalid character''))\<close>

definition demo_unmarshal_PubAckResponse :: "string \<Rightarrow> nats_error + PubAckResponse" where
  \<open>demo_unmarshal_PubAckResponse d =
     (if d = ''{"stream":"ORD","seq":6}''
        then Inr \<lparr>Type = [], Error = None,
                  PubAck = Some \<lparr>PubAck.Stream = ''ORD'', Sequence = 6, Duplicate = False\<rparr>\<rparr>
      else if d = ''{"error":{"code":400,"description":"wrong last sequence"}}''
        then Inr \<lparr>Type = [],
                  Error = Some \<lparr>Code = 400, Description = ''wrong last sequence''\<rparr>,
                  PubAck = None\<rparr>
      else if d = ''{"seq":6}''
        then Inr \<lparr>Type = [], Error = None,
                  PubAck = Some \<lparr>PubAck.Stream = [], Sequence = 6, Duplicate = False\<rparr>\<rparr>
      else if d = ''{"stream":"ORD"}''
        then Inr \<lparr>Type = [], Error = None,
                  PubAck = Some \<lparr>PubAck.Stream = ''ORD'', Sequence = 0, Duplicate = False\<rparr>\<rparr>
      else Inl (ErrOther ''invalid character''))\<close>

definition demo_unmarshal_StreamNamesResponse ::
  "string \<Rightarrow> nats_error + JSApiStreamNamesResponse" where
  \<open>demo_unmarshal_StreamNamesResponse d =
     (if d = ''{"streams":["ORD"]}''
        then Inr \<lparr>Type = [], Error = None, Streams = [''ORD'']\<rparr>
      else Inl (ErrOther ''invalid character''))\<close>

definition demo_env :: env where
  \<open>demo_env =
     \<lparr>reply_of = demo_reply_of,
      result_of = (\<lambda>tr ev. None),
      NewInbox = (\<lambda>tr. ''_INBOX.'' @ digits_of (length tr)),
      PendingLimits = (\<lambda>sub. 65536),
      marshal_streamRequest = (\<lambda>subj. Inr (''{"subject":"'' @ subj @ ''"}'')),
      marshal_CreateConsumerRequest =
        (\<lambda>req. Inr (''{"stream_name":"'' @ JSApiCreateConsumerRequest.Stream req
                       @ ''","config":{"durable_name":"''
                       @ Durable (JSApiCreateConsumerRequest.Config req) @ ''"}}'')),
      unmarshal_PubAckResponse = demo_unmarshal_PubAckResponse,
      unmarshal_ConsumerResponse = demo_unmarshal_ConsumerResponse,
      unmarshal_StreamNamesResponse = demo_unmarshal_StreamNamesResponse\<rparr>\<close>

definition demo_js :: js where
  "demo_js = \<lparr>pre = ''$JS.API.'', wait = 5000000000, direct = False\<rparr>"

definition demo_js_direct :: js where
  "demo_js_direct = \<lparr>pre = ''$JS.API.'', wait = 5000000000, direct = True\<rparr>"

text \<open>Bound subscriptions (push and pull) and messages delivered on them.\<close>

definition demo_binding :: "int \<Rightarrow> jsSub" where
  "demo_binding batch =
     \<lparr>js = demo_js, consumer = ''C1'', stream = ''ORD'',
      deliver = (if batch = 0 then ''_INBOX.0'' else []), pull = batch\<rparr>"

definition demo_sub :: "int \<Rightarrow> Subscription" where
  "demo_sub batch =
     \<lparr>sid = 0, Subject = ''_INBOX.0'', Queue = [], jsi = Some (demo_binding batch)\<rparr>"

definition demo_msg :: "string \<Rightarrow> Subscription option \<Rightarrow> Msg" where
  "demo_msg r sub = \<lparr>Subject = ''orders'', Reply = r, Header = None, Data = ''x'', Sub = sub\<rparr>"

section \<open>Metadata decoding is the decoding of the specification\<close>

declare tokens_loop.simps [simp del]

lemma split_dots_nonempty: "split_dots s \<noteq> []"
  by (induction s) auto

lemma tokens_loop_split:
  "start \<le> i \<Longrightarrow> i \<le> length subject \<Longrightarrow>
   tokens_loop subject i start tokens =
     tokens @ ((take (i - start) (drop start subject) @ hd (split_dots (drop i subject)))
               # tl (split_dots (drop i subject)))"
proof (induction subject i start tokens rule: tokens_loop.induct)
  case (1 subject i start tokens)
  show ?case
  proof (cases "i < length subject")
    case False
    with "1.prems" have "i = length subject" by simp
    then show ?thesis by (subst tokens_loop.simps) simp
  next
    case True
    then have d: "drop i subject = subject ! i # drop (Suc i) subject"
      by (simp add: Cons_nth_drop_Suc)
    have t: "take (Suc i - start) (drop start subject) = take (i - start) (drop start subject) @ [subject ! i]"
      using True "1.prems" by (simp add: take_Suc_conv_app_nth Suc_diff_le)
    show ?thesis
    proof (cases "subject ! i = CHR ''.''")
      case dot: True
      with True 1 d show ?thesis
        by (subst tokens_loop.simps) (simp add: split_dots_nonempty)
    next
      case nodot: False
      with True 1 d t show ?thesis
        by (subst tokens_loop.simps) (simp add: split_dots_nonempty)
    qed
  qed
qed

lemma tokens_loop_eq_split_dots: "tokens_loop subject 0 0 [] = split_dots subject"
  using tokens_loop_split [of 0 0 subject "[]"] split_dots_nonempty [of subject]
  by simp

lemma parseNum_loop_bad: "\<exists>c \<in> set d. \<not> is_digit c \<Longrightarrow> parseNum_loop d n = - 1"
  by (induction d arbitrary: n) (auto simp: is_digit_def)

lemma parseNum_loop_digits:
  "\<forall>c \<in> set d. is_digit c \<Longrightarrow>
   parseNum_loop d (of_nat k) = of_nat (foldl (\<lambda>n c. 10 * n + (of_char c - 48)) k d)"
proof (induction d arbitrary: k)
  case Nil
  then show ?case by simp
next
  case (Cons c d)
  then have c: "48 \<le> (of_char c :: nat)" "(of_char c :: nat) \<le> 57"
    by (simp_all add: is_digit_def)
  have step: "(of_nat k :: 64 word) * 10 + (of_nat (of_char c) - 48) = of_nat (10 * k + (of_char c - 48))"
    using c by (simp add: of_nat_diff)
  have "parseNum_loop (c # d) (of_nat k) =
          parseNum_loop d (of_nat k * 10 + (of_nat (of_char c) - 48))"
    using c by simp
  also have "\<dots> = parseNum_loop d (of_nat (10 * k + (of_char c - 48)))"
    by (simp only: step)
  also have "\<dots> = of_nat (foldl (\<lambda>n c. 10 * n + (of_char c - 48)) (10 * k + (of_char c - 48)) d)"
    by (rule Cons.IH) (use Cons.prems in simp)
  finally show ?case by simp
qed

lemma parseNum_field_value: "parseNum t = field_value t"
proof (cases "t = [] \<or> (\<exists>c \<in> set t. \<not> is_digit c)")
  case True
  then show ?thesis
    using parseNum_loop_bad [of t 0]
    by (auto simp: parseNum_def field_value_def)
next
  case False
  then have "parseNum_loop t (of_nat 0) = of_nat (decimal t)"
    unfolding decimal_def by (intro parseNum_loop_digits) simp
  with False show ?thesis
    by (simp add: parseNum_def field_value_def)
qed

text \<open>
  Claim C2. For a message bound to a JetStream subscription and carrying a reply
  subject (\<^verbatim>\<open>checkReply\<close> succeeds), \<^verbatim>\<open>MetaData\<close> splits the reply subject at the
  dots and returns the not-a-JetStream-message error unless there are exactly 9
  tokens of which the first two are \<open>$JS\<close> and \<open>ACK\<close>. Otherwise it succeeds, and
  the tokens 4 to 8 give the delivered count, the stream sequence, the consumer
  sequence, the timestamp in nanoseconds and the pending count: each is the
  decimal value of its token, and is the sentinel \<open>-1\<close> when the token is empty
  or has a character that is no digit; no error is raised for such a token.
\<close>

theorem MetaData_decodes_reply_subject:
  assumes "checkReply (Some m) = Inr x"
  shows "(\<not> (length (split_dots (Reply m)) = 9 \<and> split_dots (Reply m) ! 0 = ''$JS''
             \<and> split_dots (Reply m) ! 1 = ''ACK'')
          \<longrightarrow> MetaData (Some m) = Inl ErrNotJSMessage)
       \<and> (length (split_dots (Reply m)) = 9 \<and> split_dots (Reply m) ! 0 = ''$JS''
             \<and> split_dots (Reply m) ! 1 = ''ACK''
          \<longrightarrow> MetaData (Some m) =
                Inr \<lparr>Consumer = field_value (split_dots (Reply m) ! 6),
                     Stream = field_value (split_dots (Reply m) ! 5),
                     Delivered = field_value (split_dots (Reply m) ! 4),
                     Pending = field_value (split_dots (Reply m) ! 8),
                     Timestamp = sint (field_value (split_dots (Reply m) ! 7))\<rparr>)"
  using assms
  by (auto simp: MetaData_def tokens_loop_eq_split_dots parseNum_field_value Let_def)

theorem MetaData_decodes_reply_subject_witness:
  "MetaData (Some (demo_msg ''$JS.ACK.ORD.C1.1.2.x.4.'' (Some (demo_sub 0)))) =
     Inr \<lparr>Consumer = - 1, Stream = 2, Delivered = 1, Pending = - 1, Timestamp = 4\<rparr>
   \<and> MetaData (Some (demo_msg ''$JS.NAK.ORD.C1.1.2.3.4.5'' (Some (demo_sub 0)))) = Inl ErrNotJSMessage"
proof -
  have c: "checkReply (Some (demo_msg r (Some (demo_sub 0)))) = Inr (demo_js, False)" if "r \<noteq> []" for r
    using that by (simp add: checkReply_def demo_msg_def demo_sub_def demo_binding_def)
  have r: "Reply (demo_msg r sub) = r" for r sub
    by (simp add: demo_msg_def)
  have s1: "split_dots ''$JS.ACK.ORD.C1.1.2.x.4.'' =
              [''$JS'', ''ACK'', ''ORD'', ''C1'', ''1'', ''2'', ''x'', ''4'', []]"
    by code_simp
  have s2: "split_dots ''$JS.NAK.ORD.C1.1.2.3.4.5'' =
              [''$JS'', ''NAK'', ''ORD'', ''C1'', ''1'', ''2'', ''3'', ''4'', ''5'']"
    by code_simp
  have f: "field_value ''1'' = 1" "field_value ''2'' = 2" "field_value ''x'' = - 1"
          "field_value ''4'' = 4" "field_value [] = - 1"
    by code_simp+
  have "MetaData (Some (demo_msg ''$JS.ACK.ORD.C1.1.2.x.4.'' (Some (demo_sub 0)))) =
          Inr \<lparr>Consumer = - 1, Stream = 2, Delivered = 1, Pending = - 1, Timestamp = 4\<rparr>"
    using MetaData_decodes_reply_subject [OF c, of "''$JS.ACK.ORD.C1.1.2.x.4.''"]
    unfolding r s1 by (simp add: f)
  moreover have "MetaData (Some (demo_msg ''$JS.NAK.ORD.C1.1.2.3.4.5'' (Some (demo_sub 0)))) =
          Inl ErrNotJSMessage"
    using MetaData_decodes_reply_subject [OF c, of "''$JS.NAK.ORD.C1.1.2.3.4.5''"]
    unfolding r s2 by simp
  ultimately show ?thesis by simp
qed

section \<open>Acknowledgments\<close>

lemma ack_consts_distinct:
  "AckProgress \<noteq> AckAck" "AckProgress \<noteq> AckNak" "AckProgress \<noteq> AckTerm"
  "AckNak \<noteq> AckAck" "AckTerm \<noteq> AckAck"
  by (simp_all add: AckProgress_def AckAck_def AckNak_def AckTerm_def)

text \<open>
  Claim C9. A message with an empty reply subject gets the missing-reply error
  from \<^verbatim>\<open>Ack\<close>, \<^verbatim>\<open>AckSync\<close>, \<^verbatim>\<open>Nak\<close>, \<^verbatim>\<open>Term\<close>, \<^verbatim>\<open>InProgress\<close> and \<^verbatim>\<open>MetaData\<close>,
  bound to a subscription or not, and nothing is sent. \<^verbatim>\<open>checkReply\<close> gives the
  not-bound error exactly for a message with a reply subject and no
  subscription, and then the six operations return it.
\<close>

theorem checkReply_reply_before_binding:
  "(Reply m = [] \<longrightarrow>
      Ack e tr (Some m) = (Some ErrMsgNoReply, tr) \<and>
      AckSync e tr (Some m) = (Some ErrMsgNoReply, tr) \<and>
      Nak e tr (Some m) = (Some ErrMsgNoReply, tr) \<and>
      Term e tr (Some m) = (Some ErrMsgNoReply, tr) \<and>
      InProgress e tr (Some m) = (Some ErrMsgNoReply, tr) \<and>
      MetaData (Some m) = Inl ErrMsgNoReply) \<and>
   (checkReply (Some m) = Inl ErrMsgNotBound \<longleftrightarrow> Reply m \<noteq> [] \<and> Sub m = None) \<and>
   (Reply m \<noteq> [] \<and> Sub m = None \<longrightarrow>
      Ack e tr (Some m) = (Some ErrMsgNotBound, tr) \<and>
      AckSync e tr (Some m) = (Some ErrMsgNotBound, tr) \<and>
      Nak e tr (Some m) = (Some ErrMsgNotBound, tr) \<and>
      Term e tr (Some m) = (Some ErrMsgNotBound, tr) \<and>
      InProgress e tr (Some m) = (Some ErrMsgNotBound, tr) \<and>
      MetaData (Some m) = Inl ErrMsgNotBound)"
  by (auto simp: Ack_def AckSync_def Nak_def Term_def InProgress_def ackReply_def MetaData_def
        checkReply_def split: option.splits)

theorem checkReply_reply_before_binding_witness:
  "Ack demo_env [] (Some (demo_msg [] None)) = (Some ErrMsgNoReply, [])
   \<and> MetaData (Some (demo_msg [] None)) = Inl ErrMsgNoReply
   \<and> Nak demo_env [] (Some (demo_msg ''$JS.ACK.ORD.C1.1.2.3.4.5'' None)) = (Some ErrMsgNotBound, [])"
  using checkReply_reply_before_binding [of "demo_msg [] None" demo_env "[]"]
        checkReply_reply_before_binding [of "demo_msg ''$JS.ACK.ORD.C1.1.2.3.4.5'' None" demo_env "[]"]
  by (simp add: demo_msg_def)

text \<open>
  Claim C10. On a message of a pull-mode JetStream subscription with a reply
  subject, \<^verbatim>\<open>InProgress\<close> sends nothing and returns nil: the trace is unchanged.
\<close>

theorem InProgress_pull_mode_sends_nothing:
  assumes "Reply m \<noteq> []" "Sub m = Some sub" "jsi sub = Some j" "0 < pull j"
  shows "InProgress e tr (Some m) = (None, tr)"
  using assms
  by (simp add: InProgress_def ackReply_def checkReply_def ack_consts_distinct)

theorem InProgress_pull_mode_sends_nothing_witness:
  "InProgress demo_env [] (Some (demo_msg ''$JS.ACK.ORD.C1.1.2.3.4.5'' (Some (demo_sub 10)))) = (None, [])"
  using InProgress_pull_mode_sends_nothing [of "demo_msg ''$JS.ACK.ORD.C1.1.2.3.4.5'' (Some (demo_sub 10))" "demo_sub 10"
               "demo_binding 10" demo_env "[]"]
  by (simp add: demo_msg_def demo_sub_def demo_binding_def)

text \<open>
  Claim C6. On a message of a JetStream subscription with a reply subject: in
  pull mode \<^verbatim>\<open>Ack\<close> publishes the next-message request \<open>+NXT\<close> to the reply
  subject, with the subscription's subject as return address, and \<^verbatim>\<open>Nak\<close> and
  \<^verbatim>\<open>Term\<close> publish the next-request for batch 1, none of them the signal bytes;
  in push mode the literal signal bytes go to the reply subject. The
  synchronous \<^verbatim>\<open>AckSync\<close> waits for a reply within the context's wait time: in
  pull mode by a request after the publish, once that publish has returned
  without error, in push mode by sending the signal itself as a request.
\<close>

theorem ackReply_pull_and_push_encoding:
  assumes "Reply m \<noteq> []" "Sub m = Some sub" "jsi sub = Some j"
  shows "(0 < pull j \<longrightarrow>
           Ack e tr (Some m) =
             (result_of e tr (EvPublishRequest (Reply m) (Subscription.Subject sub) ''+NXT''),
              tr @ [EvPublishRequest (Reply m) (Subscription.Subject sub) ''+NXT'']) \<and>
           Nak e tr (Some m) =
             (result_of e tr (EvPublishRequest (Reply m) (Subscription.Subject sub) next_batch_1),
              tr @ [EvPublishRequest (Reply m) (Subscription.Subject sub) next_batch_1]) \<and>
           Term e tr (Some m) =
             (result_of e tr (EvPublishRequest (Reply m) (Subscription.Subject sub) next_batch_1),
              tr @ [EvPublishRequest (Reply m) (Subscription.Subject sub) next_batch_1]) \<and>
           snd (AckSync e tr (Some m)) =
             tr @ [EvPublishRequest (Reply m) (Subscription.Subject sub) ''+NXT'']
                @ (if result_of e tr (EvPublishRequest (Reply m) (Subscription.Subject sub) ''+NXT'') = None
                   then [EvRequest (Reply m) [] (wait (js j))] else []))
       \<and> (\<not> 0 < pull j \<longrightarrow>
           Ack e tr (Some m) =
             (result_of e tr (EvPublish (Reply m) ''+ACK''), tr @ [EvPublish (Reply m) ''+ACK'']) \<and>
           Nak e tr (Some m) =
             (result_of e tr (EvPublish (Reply m) ''-NAK''), tr @ [EvPublish (Reply m) ''-NAK'']) \<and>
           Term e tr (Some m) =
             (result_of e tr (EvPublish (Reply m) ''+TERM''), tr @ [EvPublish (Reply m) ''+TERM'']) \<and>
           InProgress e tr (Some m) =
             (result_of e tr (EvPublish (Reply m) ''+WPI''), tr @ [EvPublish (Reply m) ''+WPI'']) \<and>
           snd (AckSync e tr (Some m)) = tr @ [EvRequest (Reply m) ''+ACK'' (wait (js j))])"
  using assms
  by (auto simp: Ack_def AckSync_def Nak_def Term_def InProgress_def ackReply_def checkReply_def
        ack_consts_distinct PublishRequest_def Publish_def Request_def
        AckAck_def AckNak_def AckTerm_def AckNext_def AckProgress_def Let_def
        split: sum.splits prod.splits)

theorem ackReply_pull_and_push_encoding_witness:
  "Nak demo_env [] (Some (demo_msg ''$JS.ACK.ORD.C1.1.2.3.4.5'' (Some (demo_sub 10)))) =
     (None, [EvPublishRequest ''$JS.ACK.ORD.C1.1.2.3.4.5'' ''_INBOX.0'' next_batch_1])
   \<and> snd (AckSync demo_env [] (Some (demo_msg ''$JS.ACK.ORD.C1.1.2.3.4.5'' (Some (demo_sub 10))))) =
     [EvPublishRequest ''$JS.ACK.ORD.C1.1.2.3.4.5'' ''_INBOX.0'' ''+NXT'',
      EvRequest ''$JS.ACK.ORD.C1.1.2.3.4.5'' [] 5000000000]
   \<and> Nak demo_env [] (Some (demo_msg ''$JS.ACK.ORD.C1.1.2.3.4.5'' (Some (demo_sub 0)))) =
     (None, [EvPublish ''$JS.ACK.ORD.C1.1.2.3.4.5'' ''-NAK''])"
  using ackReply_pull_and_push_encoding [of "demo_msg ''$JS.ACK.ORD.C1.1.2.3.4.5'' (Some (demo_sub 10))" "demo_sub 10"
               "demo_binding 10" demo_env "[]"]
        ackReply_pull_and_push_encoding [of "demo_msg ''$JS.ACK.ORD.C1.1.2.3.4.5'' (Some (demo_sub 0))" "demo_sub 0"
               "demo_binding 0" demo_env "[]"]
  by (simp add: demo_msg_def demo_sub_def demo_binding_def demo_env_def demo_js_def)

section \<open>Subscribe: the configuration errors\<close>

lemma apiSubj_append: "apiSubj jsc x = pre jsc @ x"
  by (simp add: apiSubj_def)

text \<open>
  Claim C7 (amended). Once the options are applied: a subscribe call that
  combines pull mode (batch size above 0) with a callback fails with the
  pull-mode-not-allowed error; a call in direct mode whose options imply the
  create path (no stream and consumer name together, no deliver subject), and
  which does not combine pull mode with a callback, fails with the
  direct-mode-required error. In both cases nothing has been sent: the trace is
  unchanged.
\<close>

theorem subscribe_configuration_errors:
  assumes "apply_SubOpts opts initial_subOpts = Inr os"
  shows "(cb \<noteq> None \<and> 0 < subOpts.pull os \<longrightarrow>
            subscribe e jsc tr subj queue cb ch opts = (Inl ErrPullModeNotAllowed, tr))
       \<and> (direct jsc \<and> (subOpts.stream os = [] \<or> subOpts.consumer os = [])
            \<and> DeliverSubject (cfg os) = [] \<and> \<not> (cb \<noteq> None \<and> 0 < subOpts.pull os) \<longrightarrow>
            subscribe e jsc tr subj queue cb ch opts = (Inl ErrDirectModeRequired, tr))"
  using assms by (auto simp: subscribe_def shouldAttach_def)

theorem subscribe_configuration_errors_witness:
  "subscribe demo_env demo_js_direct [] ''orders'' [] None (Some 0) [] = (Inl ErrDirectModeRequired, [])
   \<and> subscribe demo_env demo_js [] ''orders'' [] (Some (Handler 0)) None [PullOpt 5] =
       (Inl ErrPullModeNotAllowed, [])"
  using subscribe_configuration_errors [of "[]" initial_subOpts None demo_env demo_js_direct "[]" "''orders''" "[]" "Some 0"]
        subscribe_configuration_errors [of "[PullOpt 5]" "initial_subOpts\<lparr>subOpts.pull := 5\<rparr>" "Some (Handler 0)" demo_env
               demo_js "[]" "''orders''" "[]" None]
  by (simp add: initial_subOpts_def zero_ConsumerConfig_def demo_js_direct_def)

text \<open>
  The claim as first stated promises the direct-mode-required error for every
  direct-mode call with create-implying options. The pull-mode check comes
  first (js.go 432 before 444): with a callback and a batch size, the error is
  the pull-mode one.
\<close>

theorem subscribe_pull_check_precedes_direct_check:
  "direct demo_js_direct
   \<and> apply_SubOpts [PullOpt 5] initial_subOpts = Inr (initial_subOpts\<lparr>subOpts.pull := 5\<rparr>)
   \<and> subOpts.stream (initial_subOpts\<lparr>subOpts.pull := 5\<rparr>) = []
   \<and> subOpts.consumer (initial_subOpts\<lparr>subOpts.pull := 5\<rparr>) = []
   \<and> DeliverSubject (cfg (initial_subOpts\<lparr>subOpts.pull := 5\<rparr>)) = []
   \<and> subscribe demo_env demo_js_direct [] ''orders'' [] (Some (Handler 0)) None [PullOpt 5] =
       (Inl ErrPullModeNotAllowed, [])
   \<and> ErrPullModeNotAllowed \<noteq> ErrDirectModeRequired"
  by (simp add: subscribe_def initial_subOpts_def zero_ConsumerConfig_def demo_js_direct_def)

section \<open>Publish: validating the acknowledgment\<close>

text \<open>
  Claim C1 (amended). When the publish request has been answered: if the body
  does not decode the call fails with the invalid-acknowledgment error; if it
  carries an error payload the call fails with an error of the server's
  description; if it lacks a stream name (no acknowledgment fields at all, or an
  empty stream, whatever the sequence) the call fails with the
  invalid-acknowledgment error; otherwise the call returns the response's
  \<^verbatim>\<open>PubAck\<close>, with its stream, sequence and duplicate flag.
\<close>

theorem PublishMsg_validates_ack:
  assumes "PublishMsg_prepare jsc m opts = Inr (m1, o2)"
      and "reply_of e tr (PublishMsg_request m1 o2) = Inr data"
  shows "(\<forall>err. unmarshal_PubAckResponse e data = Inl err \<longrightarrow>
            fst (PublishMsg e jsc tr m opts) = Inl ErrInvalidJSAck)
       \<and> (\<forall>pa. unmarshal_PubAckResponse e data = Inr pa \<longrightarrow>
            (\<forall>ae. Error pa = Some ae \<longrightarrow>
               fst (PublishMsg e jsc tr m opts) = Inl (errors_New (Description ae)))
          \<and> (Error pa = None \<and> ack_lacks_stream pa \<longrightarrow>
               fst (PublishMsg e jsc tr m opts) = Inl ErrInvalidJSAck)
          \<and> (Error pa = None \<and> \<not> ack_lacks_stream pa \<longrightarrow>
               (\<exists>p. PubAck pa = Some p \<and> fst (PublishMsg e jsc tr m opts) = Inr p)))"
  using assms
  by (auto simp: PublishMsg_def PublishMsg_request_def RequestMsg_def RequestMsgWithContext_def
        ack_lacks_stream_def split: option.splits if_splits)

theorem PublishMsg_validates_ack_witness:
  "fst (Publish_js demo_env demo_js [] ''orders'' ''x'' [ExpectLastSequence 5]) =
     Inr \<lparr>PubAck.Stream = ''ORD'', Sequence = 6, Duplicate = False\<rparr>
   \<and> fst (Publish_js demo_env demo_js [] ''orders.stale'' ''x'' [ExpectLastSequence 5]) =
     Inl (errors_New ''wrong last sequence'')
   \<and> fst (Publish_js demo_env demo_js [] ''orders.garbled'' ''x'' [ExpectLastSequence 5]) =
     Inl ErrInvalidJSAck
   \<and> fst (Publish_js demo_env demo_js [] ''orders.noseq'' ''x'' [ExpectLastSequence 5]) =
     Inr \<lparr>PubAck.Stream = ''ORD'', Sequence = 0, Duplicate = False\<rparr>"
proof -
  let ?m = "\<lambda>s. \<lparr>Subject = s, Reply = [], Header = None, Data = ''x'', Sub = None\<rparr>"
  let ?m1 = "\<lambda>s. \<lparr>Subject = s, Reply = [], Header = Some [(''Nats-Expected-Last-Sequence'', [''5''])],
                    Data = ''x'', Sub = None\<rparr>"
  let ?o2 = "\<lparr>ctx = None, ttl = 5000000000, id' = [], lid = [], str = [], seq = 5\<rparr>"
  have p: "PublishMsg_prepare demo_js (?m s) [ExpectLastSequence 5] = Inr (?m1 s, ?o2)" for s
    by code_simp
  have r: "reply_of demo_env [] (PublishMsg_request (?m1 s) ?o2) = demo_publish_reply s" for s
    by (simp add: demo_env_def demo_reply_of_def PublishMsg_request_def)
  have r1: "reply_of demo_env [] (PublishMsg_request (?m1 ''orders'') ?o2) = Inr ''{\"stream\":\"ORD\",\"seq\":6}''"
    unfolding r by code_simp
  have r2: "reply_of demo_env [] (PublishMsg_request (?m1 ''orders.stale'') ?o2) =
             Inr ''{\"error\":{\"code\":400,\"description\":\"wrong last sequence\"}}''"
    unfolding r by code_simp
  have r3: "reply_of demo_env [] (PublishMsg_request (?m1 ''orders.garbled'') ?o2) = Inr ''+OK''"
    unfolding r by code_simp
  have u1: "unmarshal_PubAckResponse demo_env ''{\"stream\":\"ORD\",\"seq\":6}'' =
              Inr \<lparr>Type = [], Error = None,
                   PubAck = Some \<lparr>PubAck.Stream = ''ORD'', Sequence = 6, Duplicate = False\<rparr>\<rparr>"
    by (simp add: demo_env_def demo_unmarshal_PubAckResponse_def)
  have u2: "unmarshal_PubAckResponse demo_env
              ''{\"error\":{\"code\":400,\"description\":\"wrong last sequence\"}}'' =
              Inr \<lparr>Type = [], Error = Some \<lparr>Code = 400, Description = ''wrong last sequence''\<rparr>,
                   PubAck = None\<rparr>"
    by (simp add: demo_env_def demo_unmarshal_PubAckResponse_def)
  have u3: "unmarshal_PubAckResponse demo_env ''+OK'' = Inl (ErrOther ''invalid character'')"
    by (simp add: demo_env_def demo_unmarshal_PubAckResponse_def)
  have r4: "reply_of demo_env [] (PublishMsg_request (?m1 ''orders.noseq'') ?o2) =
             Inr ''{\"stream\":\"ORD\"}''"
    unfolding r by code_simp
  have u4: "unmarshal_PubAckResponse demo_env ''{\"stream\":\"ORD\"}'' =
              Inr \<lparr>Type = [], Error = None,
                   PubAck = Some \<lparr>PubAck.Stream = ''ORD'', Sequence = 0, Duplicate = False\<rparr>\<rparr>"
    by (simp add: demo_env_def demo_unmarshal_PubAckResponse_def)
  have "fst (PublishMsg demo_env demo_js [] (?m ''orders'') [ExpectLastSequence 5]) =
          Inr \<lparr>PubAck.Stream = ''ORD'', Sequence = 6, Duplicate = False\<rparr>"
    using PublishMsg_validates_ack [OF p r1] u1 by (simp add: ack_lacks_stream_def)
  moreover have "fst (PublishMsg demo_env demo_js [] (?m ''orders.stale'') [ExpectLastSequence 5]) =
          Inl (errors_New ''wrong last sequence'')"
    using PublishMsg_validates_ack [OF p r2] u2 by simp
  moreover have "fst (PublishMsg demo_env demo_js [] (?m ''orders.garbled'') [ExpectLastSequence 5]) =
          Inl ErrInvalidJSAck"
    using PublishMsg_validates_ack [OF p r3] u3 by simp
  moreover have "fst (PublishMsg demo_env demo_js [] (?m ''orders.noseq'') [ExpectLastSequence 5]) =
          Inr \<lparr>PubAck.Stream = ''ORD'', Sequence = 0, Duplicate = False\<rparr>"
    using PublishMsg_validates_ack [OF p r4] u4 by (simp add: ack_lacks_stream_def)
  ultimately show ?thesis by (simp add: Publish_js_def)
qed

text \<open>
  The claim as first stated lets a response through unless it lacks both the
  stream name and a nonzero sequence. The body \<^verbatim>\<open>{"seq":6}\<close> decodes, has no
  error payload and has a nonzero sequence, and is refused (js.go 249).
\<close>

theorem PublishMsg_sequence_without_stream_rejected:
  "unmarshal_PubAckResponse demo_env ''{\"seq\":6}'' =
     Inr \<lparr>Type = [], Error = None,
          PubAck = Some \<lparr>PubAck.Stream = [], Sequence = 6, Duplicate = False\<rparr>\<rparr>
   \<and> \<not> ack_lacks_both \<lparr>Type = [], Error = None,
          PubAck = Some \<lparr>PubAck.Stream = [], Sequence = 6, Duplicate = False\<rparr>\<rparr>
   \<and> Publish_js demo_env demo_js [] ''orders.seqonly'' ''x'' [] =
       (Inl ErrInvalidJSAck,
        [EvRequestMsg \<lparr>Subject = ''orders.seqonly'', Reply = [], Header = None, Data = ''x'',
                        Sub = None\<rparr> 5000000000])"
  by code_simp

section \<open>Subscribe: the traces of the three paths\<close>

lemma subscribe_resolve_trace:
  "snd (subscribe_resolve e jsc tr subj os) =
     (if direct jsc then tr
      else if shouldAttach os then
        tr @ [EvRequest (apiSubj jsc (JSApiConsumerInfoT (subOpts.stream os) (subOpts.consumer os)))
                [] (wait jsc)]
      else (case marshal_streamRequest e subj of
              Inl err \<Rightarrow> tr
            | Inr j \<Rightarrow> tr @ [EvRequest (apiSubj jsc JSApiStreams) j (wait jsc)]))"
  by (auto simp: subscribe_resolve_def getConsumerInfo_def lookupStreamBySubject_def Request_def
        Let_def split: sum.splits option.splits prod.splits)

lemma is_create_request_simps [simp]:
  "is_create_request jsc (EvRequest (apiSubj jsc (JSApiConsumerCreateT s)) d t)"
  "is_create_request jsc (EvRequest (apiSubj jsc (JSApiDurableCreateT s n)) d t)"
  "\<not> is_create_request jsc (EvRequest (apiSubj jsc (JSApiConsumerInfoT s c)) d t)"
  "\<not> is_create_request jsc (EvRequest (apiSubj jsc JSApiStreams) d t)"
  "\<not> is_create_request jsc (EvSubscribe a b cb ch sy)"
  "\<not> is_create_request jsc (EvUnsubscribe n')"
  "\<not> is_create_request jsc (EvPublishRequest a b c')"
  by (simp_all add: is_create_request_def apiSubj_append JSApiConsumerCreateT_def
        JSApiDurableCreateT_def JSApiConsumerInfoT_def JSApiStreams_def)

lemma is_info_request_simps [simp]:
  "is_info_request jsc (EvRequest (apiSubj jsc (JSApiConsumerInfoT s c)) d t)"
  "\<not> is_info_request jsc (EvRequest (apiSubj jsc (JSApiConsumerCreateT s)) d t)"
  "\<not> is_info_request jsc (EvRequest (apiSubj jsc (JSApiDurableCreateT s n)) d t)"
  "\<not> is_info_request jsc (EvRequest (apiSubj jsc JSApiStreams) d t)"
  "\<not> is_info_request jsc (EvSubscribe a b cb ch sy)"
  "\<not> is_info_request jsc (EvUnsubscribe n')"
  "\<not> is_info_request jsc (EvPublishRequest a b c')"
  by (simp_all add: is_info_request_def apiSubj_append JSApiConsumerCreateT_def
        JSApiDurableCreateT_def JSApiConsumerInfoT_def JSApiStreams_def)

lemma is_lookup_request_simps [simp]:
  "is_lookup_request jsc (EvRequest (apiSubj jsc JSApiStreams) d t)"
  "\<not> is_lookup_request jsc (EvRequest (apiSubj jsc (JSApiConsumerInfoT s c)) d t)"
  "\<not> is_lookup_request jsc (EvRequest (apiSubj jsc (JSApiConsumerCreateT s)) d t)"
  "\<not> is_lookup_request jsc (EvRequest (apiSubj jsc (JSApiDurableCreateT s n)) d t)"
  "\<not> is_lookup_request jsc (EvSubscribe a b cb ch sy)"
  "\<not> is_lookup_request jsc (EvUnsubscribe n')"
  "\<not> is_lookup_request jsc (EvPublishRequest a b c')"
  by (simp_all add: is_lookup_request_def apiSubj_append JSApiConsumerCreateT_def
        JSApiDurableCreateT_def JSApiConsumerInfoT_def JSApiStreams_def)

lemma is_request_simps [simp]:
  "is_request (EvRequest s d t)"
  "\<not> is_request (EvSubscribe a b cb ch sy)"
  "\<not> is_request (EvUnsubscribe n')"
  "\<not> is_request (EvPublishRequest a b c')"
  "\<not> is_request (EvPublish a b)"
  by (simp_all add: is_request_def)

lemma create_subject_is_create [simp]:
  "is_create_request jsc (EvRequest (apiSubj jsc (create_subject s c)) d t)"
  "\<not> is_info_request jsc (EvRequest (apiSubj jsc (create_subject s c)) d t)"
  "\<not> is_lookup_request jsc (EvRequest (apiSubj jsc (create_subject s c)) d t)"
  by (simp_all add: create_subject_def)

lemma subscribe_create_cases:
  assumes "subscribe_create e jsc tr sub s c = (r, tr')"
  obtains
    (marshal) err where "r = Inl err" "tr' = tr"
  | (failed) err j where "r = Inl err"
      "tr' = tr @ [EvRequest (apiSubj jsc (create_subject s (create_config e sub c))) j (wait jsc),
                   EvUnsubscribe (sid sub)]"
  | (panic) j where "r = Inl PanicNilDereference"
      "tr' = tr @ [EvRequest (apiSubj jsc (create_subject s (create_config e sub c))) j (wait jsc)]"
  | (created) j data info ci jb where
      "tr' = tr @ [EvRequest (apiSubj jsc (create_subject s (create_config e sub c))) j (wait jsc)]"
      "reply_of e tr (EvRequest (apiSubj jsc (create_subject s (create_config e sub c))) j (wait jsc))
         = Inr data"
      "unmarshal_ConsumerResponse e data = Inr info" "Error info = None"
      "ConsumerInfo info = Some ci" "jsi sub = Some jb"
      "r = Inr (sub\<lparr>jsi := Some (jb\<lparr>jsSub.stream := ConsumerInfo.Stream ci,
                                       jsSub.consumer := Name ci,
                                       deliver := DeliverSubject (ConsumerInfo.Config ci)\<rparr>)\<rparr>)"
proof -
  define req where "req = \<lparr>JSApiCreateConsumerRequest.Stream = s, Config = create_config e sub c\<rparr>"
  define cs where "cs = apiSubj jsc (create_subject s (create_config e sub c))"
  note d = assms [unfolded subscribe_create_def Let_def Request_def Unsubscribe_def,
                  folded req_def cs_def]
  show thesis
  proof (cases "marshal_CreateConsumerRequest e req")
    case (Inl err)
    with d marshal show ?thesis by auto
  next
    case j: (Inr j)
    show ?thesis
    proof (cases "reply_of e tr (EvRequest cs j (wait jsc))")
      case (Inl err)
      with d j failed [of _ j] show ?thesis by (auto simp: cs_def)
    next
      case data: (Inr data)
      show ?thesis
      proof (cases "unmarshal_ConsumerResponse e data")
        case (Inl err)
        with d j data failed [of _ j] show ?thesis by (auto simp: cs_def)
      next
        case info: (Inr info)
        show ?thesis
        proof (cases "Error info")
          case (Some ae)
          with d j data info failed [of _ j] show ?thesis by (auto simp: cs_def)
        next
          case None
          show ?thesis
          proof (cases "ConsumerInfo info")
            case ci: None
            with d j data info None panic [of j] show ?thesis by (auto simp: cs_def)
          next
            case ci: (Some ci)
            show ?thesis
            proof (cases "jsi sub")
              case jb: None
              with d j data info None ci panic [of j] show ?thesis by (auto simp: cs_def)
            next
              case jb: (Some jb)
              with d j data info None ci created [of j data info ci jb] show ?thesis
                by (auto simp: cs_def)
            qed
          qed
        qed
      qed
    qed
  qed
qed

lemma Poll_trace:
  "\<exists>rest. snd (Poll e tr sub) = tr @ rest \<and> (\<forall>ev \<in> set rest. \<exists>a b c. ev = EvPublishRequest a b c)"
  by (auto simp: Poll_def PublishRequest_def split: option.splits)

lemma subscribe_finish_shape:
  assumes "subscribe_finish e jsc tr1 queue cb ch sc s d ccfg os1 = (r, tr')"
  shows "\<exists>cb1 rest. tr' = tr1 @ EvSubscribe d queue cb1 ch (cb1 = None) # rest \<and>
           (if sc then
              (rest = [] \<and> (\<exists>err. r = Inl err))
            \<or> (\<exists>cs j. is_create_request jsc (EvRequest cs j (wait jsc)) \<and>
                 \<not> is_info_request jsc (EvRequest cs j (wait jsc)) \<and>
                 \<not> is_lookup_request jsc (EvRequest cs j (wait jsc)) \<and>
                 ((\<exists>err. r = Inl err) \<and>
                    rest = [EvRequest cs j (wait jsc), EvUnsubscribe (length tr1)]
                \<or> r = Inl PanicNilDereference \<and> rest = [EvRequest cs j (wait jsc)]
                \<or> (\<exists>sub1 rest1. r = Inr sub1 \<and> rest = EvRequest cs j (wait jsc) # rest1 \<and>
                      (\<forall>ev \<in> set rest1. \<exists>a b c. ev = EvPublishRequest a b c))))
            else (\<forall>ev \<in> set rest. \<exists>a b c. ev = EvPublishRequest a b c))"
proof -
  define cb1 where "cb1 = (case cb of None \<Rightarrow> None
                           | Some ocb \<Rightarrow> if \<not> mack os1 then Some (AckAfter ocb) else Some ocb)"
  define ev where "ev = EvSubscribe d queue cb1 ch (cb1 = None)"
  define sub where "sub = \<lparr>sid = length tr1, Subject = d, Queue = queue,
                           jsi = Some \<lparr>js = jsc, consumer = [], stream = [], deliver = [], pull = 0\<rparr>\<rparr>"
  note a = assms [unfolded subscribe_finish_def nc_subscribe_def Let_def,
                  folded cb1_def, folded ev_def, folded sub_def]
  let ?CS = "apiSubj jsc (create_subject s (create_config e sub (cfg os1)))"
  show ?thesis
  proof (cases "result_of e tr1 ev")
    case (Some err)
    with a have "r = Inl err" "tr' = tr1 @ [ev]" by auto
    then show ?thesis
      by (intro exI [of _ cb1] exI [of _ "[]"]) (simp add: ev_def)
  next
    case None
    show ?thesis
    proof (cases sc)
      case True
      obtain r3 tr3 where c: "subscribe_create e jsc (tr1 @ [ev]) sub s (cfg os1) = (r3, tr3)"
        by (cases "subscribe_create e jsc (tr1 @ [ev]) sub s (cfg os1)")
      from c show ?thesis
      proof (cases rule: subscribe_create_cases)
        case (marshal err)
        with a None True c have "r = Inl err" "tr' = tr1 @ [ev]" by auto
        then show ?thesis using True
          by (intro exI [of _ cb1] exI [of _ "[]"]) (simp add: ev_def)
      next
        case (failed err j)
        with a None True c have "r = Inl err"
          "tr' = tr1 @ [ev, EvRequest ?CS j (wait jsc), EvUnsubscribe (length tr1)]"
          by (auto simp: sub_def)
        then show ?thesis using True
          by (intro exI [of _ cb1] exI [of _ "[EvRequest ?CS j (wait jsc), EvUnsubscribe (length tr1)]"])
             (auto simp: ev_def)
      next
        case (panic j)
        with a None True c have "r = Inl PanicNilDereference"
          "tr' = tr1 @ [ev, EvRequest ?CS j (wait jsc)]"
          by auto
        then show ?thesis using True
          by (intro exI [of _ cb1] exI [of _ "[EvRequest ?CS j (wait jsc)]"])
             (auto simp: ev_def)
      next
        case (created j data info ci jb)
        define sub1 where "sub1 = sub\<lparr>jsi := Some (jb\<lparr>jsSub.stream := ConsumerInfo.Stream ci,
                                       jsSub.consumer := Name ci,
                                       deliver := DeliverSubject (ConsumerInfo.Config ci)\<rparr>)\<rparr>"
        define sub2 where "sub2 = sub1\<lparr>jsi := Some ((jb\<lparr>jsSub.stream := ConsumerInfo.Stream ci,
                                       jsSub.consumer := Name ci,
                                       deliver := DeliverSubject (ConsumerInfo.Config ci)\<rparr>)
                                       \<lparr>pull := subOpts.pull os1\<rparr>)\<rparr>"
        obtain rest1 where p: "snd (Poll e tr3 sub2) = tr3 @ rest1"
          "\<forall>ev \<in> set rest1. \<exists>a b c. ev = EvPublishRequest a b c"
          using Poll_trace [of e tr3 sub2] by blast
        have "\<exists>sub' rest2. r = Inr sub' \<and> tr' = tr1 @ [ev, EvRequest ?CS j (wait jsc)] @ rest2 \<and>
                (\<forall>ev \<in> set rest2. \<exists>a b c. ev = EvPublishRequest a b c)"
        proof (cases "0 < subOpts.pull os1")
          case pm: True
          with a None True c created p(1) have "r = Inr sub2" "tr' = tr3 @ rest1"
            by (auto simp: sub1_def sub2_def)
          with created p(2) show ?thesis by auto
        next
          case pm: False
          with a None True c created have "r = Inr sub1" "tr' = tr3"
            by (auto simp: sub1_def)
          with created show ?thesis by auto
        qed
        then obtain sub' rest2 where "r = Inr sub'"
          "tr' = tr1 @ [ev, EvRequest ?CS j (wait jsc)] @ rest2"
          "\<forall>ev \<in> set rest2. \<exists>a b c. ev = EvPublishRequest a b c"
          by blast
        then show ?thesis using True
          by (intro exI [of _ cb1] exI [of _ "EvRequest ?CS j (wait jsc) # rest2"])
             (auto simp: ev_def)
      qed
    next
      case False
      have "\<exists>rest. tr' = tr1 @ ev # rest \<and>
          (\<forall>ev \<in> set rest. \<exists>a b c. ev = EvPublishRequest a b c)"
      proof (cases "subscribe_existing jsc sub os1 ccfg")
        case (Inl err)
        with a None False show ?thesis by auto
      next
        case (Inr sub1)
        show ?thesis
        proof (cases "0 < subOpts.pull os1")
          case pm: False
          with a None False Inr show ?thesis by auto
        next
          case pm: True
          show ?thesis
          proof (cases "jsi sub1")
            case jn: None
            with a None False Inr pm show ?thesis by auto
          next
            case (Some jb)
            with a None False Inr pm
            have "tr' = snd (Poll e (tr1 @ [ev]) (sub1\<lparr>jsi := Some (jb\<lparr>pull := subOpts.pull os1\<rparr>)\<rparr>))"
              by auto
            with Poll_trace [of e "tr1 @ [ev]" "sub1\<lparr>jsi := Some (jb\<lparr>pull := subOpts.pull os1\<rparr>)\<rparr>"]
            show ?thesis by auto
          qed
        qed
      qed
      then show ?thesis using False
        by (auto simp: ev_def)
    qed
  qed
qed

lemma getConsumerInfo_trace:
  "snd (getConsumerInfo e jsc tr s c) =
     tr @ [EvRequest (apiSubj jsc (JSApiConsumerInfoT s c)) [] (wait jsc)]"
  by (auto simp: getConsumerInfo_def Request_def split: sum.splits option.splits)

lemma subscribe_resolve_attach:
  assumes "\<not> direct jsc" "shouldAttach os"
      and "getConsumerInfo e jsc tr (subOpts.stream os) (subOpts.consumer os) = (Inr (Some info), tr1)"
  shows "subscribe_resolve e jsc tr subj os =
           (if FilterSubject (ConsumerInfo.Config info) \<noteq> []
               \<and> subj \<noteq> FilterSubject (ConsumerInfo.Config info)
            then (Inl ErrSubjectMismatch, tr1)
            else (Inr ([], if DeliverSubject (ConsumerInfo.Config info) \<noteq> []
                           then DeliverSubject (ConsumerInfo.Config info) else NewInbox e tr1,
                       Some (ConsumerInfo.Config info), os), tr1))"
  using assms by (simp add: subscribe_resolve_def Let_def)

lemma subscribe_resolve_result:
  assumes "subscribe_resolve e jsc tr subj os = (Inr (s, d, ccfg, os1), tr1)"
  shows "subOpts.pull os1 = subOpts.pull os"
    and "direct jsc \<or> shouldAttach os \<Longrightarrow> os1 = os"
    and "\<not> direct jsc \<Longrightarrow> shouldAttach os \<Longrightarrow>
           \<exists>info. fst (getConsumerInfo e jsc tr (subOpts.stream os) (subOpts.consumer os)) = Inr (Some info)
                  \<and> ccfg = Some (ConsumerInfo.Config info)"
  using assms
  by (auto simp: subscribe_resolve_def Let_def split: if_splits prod.splits sum.splits option.splits)

lemma subscribe_unfold:
  assumes "apply_SubOpts opts initial_subOpts = Inr os"
      and "\<not> (cb \<noteq> None \<and> 0 < subOpts.pull os)"
      and "\<not> (direct jsc \<and> \<not> shouldAttach os)"
  shows "subscribe e jsc tr subj queue cb ch opts =
           (case subscribe_resolve e jsc tr subj os of
              (Inl err, tr1) \<Rightarrow> (Inl err, tr1)
            | (Inr (s, d, ccfg, os1), tr1) \<Rightarrow>
                subscribe_finish e jsc tr1 queue cb ch (\<not> shouldAttach os) s d ccfg os1)"
  using assms by (cases cb) (auto simp: subscribe_def)

text \<open>
  Claim C8. On the attach path (not direct mode, and the options give a stream
  and a consumer name or a deliver subject), the consumer's info is fetched by
  one request to \<open>CONSUMER.INFO.<stream>.<consumer>\<close>. When it is fetched: if the
  filter subject of its configuration is not empty and differs from the
  requested subject, the call fails with the subject-mismatch error and that
  request is all that was sent, so no create-consumer request; otherwise the
  next thing is the local subscription, on the configured deliver subject, or
  on a fresh inbox when that is empty, and no request follows it.
\<close>

theorem subscribe_attach_checks_filter_subject:
  assumes "apply_SubOpts opts initial_subOpts = Inr os"
      and "\<not> (cb \<noteq> None \<and> 0 < subOpts.pull os)"
      and "\<not> direct jsc"
      and "subOpts.stream os \<noteq> [] \<and> subOpts.consumer os \<noteq> [] \<or> DeliverSubject (cfg os) \<noteq> []"
      and "getConsumerInfo e jsc tr (subOpts.stream os) (subOpts.consumer os) = (Inr (Some info), tr1)"
  shows "tr1 = tr @ [EvRequest (apiSubj jsc (''CONSUMER.INFO.'' @ subOpts.stream os @ ''.''
                                               @ subOpts.consumer os)) [] (wait jsc)]
       \<and> (FilterSubject (ConsumerInfo.Config info) \<noteq> []
            \<and> subj \<noteq> FilterSubject (ConsumerInfo.Config info) \<longrightarrow>
            subscribe e jsc tr subj queue cb ch opts = (Inl ErrSubjectMismatch, tr1))
       \<and> (\<not> (FilterSubject (ConsumerInfo.Config info) \<noteq> []
               \<and> subj \<noteq> FilterSubject (ConsumerInfo.Config info)) \<longrightarrow>
            (\<exists>cb1 rest.
               snd (subscribe e jsc tr subj queue cb ch opts) =
                 tr1 @ EvSubscribe (if DeliverSubject (ConsumerInfo.Config info) \<noteq> []
                                    then DeliverSubject (ConsumerInfo.Config info)
                                    else NewInbox e tr1) queue cb1 ch (cb1 = None) # rest
               \<and> (\<forall>ev \<in> set rest. \<not> is_request ev)))"
proof -
  have sa: "shouldAttach os" using assms(4) by (simp add: shouldAttach_def)
  have t: "tr1 = tr @ [EvRequest (apiSubj jsc (''CONSUMER.INFO.'' @ subOpts.stream os @ ''.''
                                               @ subOpts.consumer os)) [] (wait jsc)]"
    using getConsumerInfo_trace [of e jsc tr "subOpts.stream os" "subOpts.consumer os"] assms(5)
    by (simp add: JSApiConsumerInfoT_def)
  have nd: "\<not> (direct jsc \<and> \<not> shouldAttach os)" using assms(3) by simp
  note u = subscribe_unfold [OF assms(1,2) nd]
  note r = subscribe_resolve_attach [OF assms(3) sa assms(5), of subj]
  let ?mis = "FilterSubject (ConsumerInfo.Config info) \<noteq> []
               \<and> subj \<noteq> FilterSubject (ConsumerInfo.Config info)"
  let ?d = "if DeliverSubject (ConsumerInfo.Config info) \<noteq> []
            then DeliverSubject (ConsumerInfo.Config info) else NewInbox e tr1"
  have m: "subscribe e jsc tr subj queue cb ch opts = (Inl ErrSubjectMismatch, tr1)" if ?mis
  proof -
    have "subscribe_resolve e jsc tr subj os = (Inl ErrSubjectMismatch, tr1)"
      unfolding r using that by (simp only: if_True simp_thms)
    then show ?thesis unfolding u by simp
  qed
  have n: "\<exists>cb1 rest. snd (subscribe e jsc tr subj queue cb ch opts) =
                 tr1 @ EvSubscribe ?d queue cb1 ch (cb1 = None) # rest
               \<and> (\<forall>ev \<in> set rest. \<not> is_request ev)" if "\<not> ?mis"
  proof -
    have "subscribe_resolve e jsc tr subj os =
            (Inr ([], ?d, Some (ConsumerInfo.Config info), os), tr1)"
      unfolding r using that by (simp only: if_False simp_thms)
    then have eq: "subscribe e jsc tr subj queue cb ch opts =
            subscribe_finish e jsc tr1 queue cb ch False [] ?d (Some (ConsumerInfo.Config info)) os"
      unfolding u using sa by (simp only: prod.case sum.case simp_thms)
    obtain x tr' where
      f: "subscribe_finish e jsc tr1 queue cb ch False [] ?d (Some (ConsumerInfo.Config info)) os = (x, tr')"
      by (cases "subscribe_finish e jsc tr1 queue cb ch False [] ?d (Some (ConsumerInfo.Config info)) os")
    from subscribe_finish_shape [OF f] obtain cb1 rest where
      "tr' = tr1 @ EvSubscribe ?d queue cb1 ch (cb1 = None) # rest"
      "\<forall>ev \<in> set rest. \<exists>a b c. ev = EvPublishRequest a b c"
      by (auto simp only: if_False)
    then have "snd (subscribe e jsc tr subj queue cb ch opts) =
        tr1 @ EvSubscribe ?d queue cb1 ch (cb1 = None) # rest \<and> (\<forall>ev \<in> set rest. \<not> is_request ev)"
      unfolding eq f by auto
    then show ?thesis by blast
  qed
  from t m n show ?thesis by blast
qed

theorem subscribe_attach_checks_filter_subject_witness:
  "subscribe demo_env demo_js [] ''other'' [] (Some (Handler 1)) None [AttachOpt ''ORD'' ''C1''] =
     (Inl ErrSubjectMismatch, [EvRequest ''$JS.API.CONSUMER.INFO.ORD.C1'' [] 5000000000])
   \<and> (\<exists>cb1 rest.
        snd (subscribe demo_env demo_js [] ''orders'' [] (Some (Handler 1)) None
               [AttachOpt ''ORD'' ''C1'']) =
          [EvRequest ''$JS.API.CONSUMER.INFO.ORD.C1'' [] 5000000000]
            @ EvSubscribe ''deliver.C1'' [] cb1 None (cb1 = None) # rest)"
proof -
  let ?os = "initial_subOpts\<lparr>subOpts.stream := ''ORD'', subOpts.consumer := ''C1''\<rparr>"
  let ?info = "demo_ConsumerInfo ''C1''
                 (zero_ConsumerConfig\<lparr>DeliverSubject := ''deliver.C1'', FilterSubject := ''orders''\<rparr>)"
  let ?tr1 = "[EvRequest ''$JS.API.CONSUMER.INFO.ORD.C1'' [] 5000000000]"
  have h1: "apply_SubOpts [AttachOpt ''ORD'' ''C1''] initial_subOpts = Inr ?os" by simp
  have h2: "\<not> (Some (Handler 1) \<noteq> None \<and> 0 < subOpts.pull ?os)" by (simp add: initial_subOpts_def)
  have h3: "\<not> direct demo_js" by (simp add: demo_js_def)
  have h4: "subOpts.stream ?os \<noteq> [] \<and> subOpts.consumer ?os \<noteq> [] \<or> DeliverSubject (cfg ?os) \<noteq> []"
    by simp
  have h5: "getConsumerInfo demo_env demo_js [] (subOpts.stream ?os) (subOpts.consumer ?os) =
              (Inr (Some ?info), ?tr1)"
    by code_simp
  have f: "FilterSubject (ConsumerInfo.Config ?info) = ''orders''"
          "DeliverSubject (ConsumerInfo.Config ?info) = ''deliver.C1''"
    by (simp_all add: demo_ConsumerInfo_def)
  have m: "FilterSubject (ConsumerInfo.Config ?info) \<noteq> []
             \<and> ''other'' \<noteq> FilterSubject (ConsumerInfo.Config ?info)"
    unfolding f by simp
  have n: "\<not> (FilterSubject (ConsumerInfo.Config ?info) \<noteq> []
             \<and> ''orders'' \<noteq> FilterSubject (ConsumerInfo.Config ?info))"
    unfolding f by simp
  have d: "(if DeliverSubject (ConsumerInfo.Config ?info) \<noteq> []
            then DeliverSubject (ConsumerInfo.Config ?info) else NewInbox demo_env ?tr1) = ''deliver.C1''"
    unfolding f by simp
  note a = subscribe_attach_checks_filter_subject [OF h1 h2 h3 h4 h5, of "''other''" "[]" None,
             THEN conjunct2, THEN conjunct1, THEN mp, OF m]
  note b = subscribe_attach_checks_filter_subject [OF h1 h2 h3 h4 h5, of "''orders''" "[]" None,
             THEN conjunct2, THEN conjunct2, THEN mp, OF n, unfolded d]
  from b obtain cb1 rest where
    "snd (subscribe demo_env demo_js [] ''orders'' [] (Some (Handler 1)) None
               [AttachOpt ''ORD'' ''C1'']) =
          ?tr1 @ EvSubscribe ''deliver.C1'' [] cb1 None (cb1 = None) # rest"
    by (elim exE conjE)
  with a show ?thesis by (intro conjI exI)
qed

lemma subscribe_after_resolve:
  assumes "apply_SubOpts opts initial_subOpts = Inr os"
      and "\<not> (cb \<noteq> None \<and> 0 < subOpts.pull os)"
      and "\<not> (direct jsc \<and> \<not> shouldAttach os)"
      and "subscribe e jsc tr subj queue cb ch opts = (r, tr')"
  obtains
    (resolve_failed) err where "r = Inl err" "tr' = snd (subscribe_resolve e jsc tr subj os)"
  | (finished) s d ccfg os1 tr1 where
      "subscribe_resolve e jsc tr subj os = (Inr (s, d, ccfg, os1), tr1)"
      "subscribe_finish e jsc tr1 queue cb ch (\<not> shouldAttach os) s d ccfg os1 = (r, tr')"
proof -
  note u = assms(4) [unfolded subscribe_unfold [OF assms(1-3)]]
  obtain x tr1 where res: "subscribe_resolve e jsc tr subj os = (x, tr1)"
    by (cases "subscribe_resolve e jsc tr subj os")
  show thesis
  proof (cases x)
    case (Inl err)
    with u res resolve_failed [of err] show ?thesis by simp
  next
    case (Inr p)
    obtain s d ccfg os1 where "p = (s, d, ccfg, os1)" by (cases p)
    with u res Inr finished [of s d ccfg os1 tr1] show ?thesis by simp
  qed
qed

lemma subscribe_resolve_prefix:
  "\<exists>pre. snd (subscribe_resolve e jsc tr subj os) = tr @ pre
          \<and> (\<forall>ev \<in> set pre. \<not> is_create_request jsc ev)
          \<and> (shouldAttach os \<longrightarrow> (\<forall>ev \<in> set pre. \<not> is_lookup_request jsc ev))
          \<and> (\<not> shouldAttach os \<longrightarrow> (\<forall>ev \<in> set pre. \<not> is_info_request jsc ev))
          \<and> (direct jsc \<longrightarrow> pre = [])"
  unfolding subscribe_resolve_trace
  by (cases "marshal_streamRequest e subj") auto

lemma subscribe_finish_events:
  assumes "subscribe_finish e jsc tr1 queue cb ch sc s d ccfg os1 = (r, tr')"
  shows "\<exists>cb1 rest. tr' = tr1 @ EvSubscribe d queue cb1 ch (cb1 = None) # rest
           \<and> (\<forall>ev \<in> set rest. \<not> is_info_request jsc ev \<and> \<not> is_lookup_request jsc ev)
           \<and> (\<not> sc \<longrightarrow> (\<forall>ev \<in> set rest. \<not> is_request ev \<and> \<not> is_create_request jsc ev))"
proof (cases sc)
  case True
  with subscribe_finish_shape [OF assms] show ?thesis
    apply (simp only: if_True)
    apply (elim exE conjE disjE)
    apply (rule_tac x = cb1 in exI, rule_tac x = rest in exI, simp)
    apply (rule_tac x = cb1 in exI, rule_tac x = rest in exI, simp)
    apply (rule_tac x = cb1 in exI, rule_tac x = rest in exI, simp)
    apply (rule_tac x = cb1 in exI, rule_tac x = rest in exI, auto)
    done
next
  case False
  with subscribe_finish_shape [OF assms] show ?thesis
    apply (simp only: if_False)
    apply (elim exE conjE)
    apply (rule_tac x = cb1 in exI, rule_tac x = rest in exI)
    apply auto
    done
qed


text \<open>
  The three failures of the create request, one by one: each returns an error
  and leaves the request followed by the unsubscribe. An error of the JSON
  encoder before the request (js.go 515-518) returns with nothing sent and
  without the unsubscribe.
\<close>

lemma subscribe_create_failure_kinds:
  assumes "marshal_CreateConsumerRequest e
             \<lparr>JSApiCreateConsumerRequest.Stream = s, Config = create_config e sub c\<rparr> = Inr j"
      and "reply_of e tr (EvRequest (apiSubj jsc (create_subject s (create_config e sub c))) j (wait jsc))
             = rp"
      and "(\<exists>err. rp = Inl err)
         \<or> (\<exists>data. rp = Inr data \<and>
               ((\<exists>err. unmarshal_ConsumerResponse e data = Inl err)
              \<or> (\<exists>info ae. unmarshal_ConsumerResponse e data = Inr info \<and> Error info = Some ae)))"
  shows "\<exists>err. subscribe_create e jsc tr sub s c =
           (Inl err, tr @ [EvRequest (apiSubj jsc (create_subject s (create_config e sub c))) j (wait jsc),
                           EvUnsubscribe (sid sub)])"
  using assms
  by (auto simp: subscribe_create_def Request_def Unsubscribe_def Let_def)

lemma subscribe_create_marshal_failure:
  assumes "marshal_CreateConsumerRequest e
             \<lparr>JSApiCreateConsumerRequest.Stream = s, Config = create_config e sub c\<rparr> = Inl err"
  shows "subscribe_create e jsc tr sub s c = (Inl err, tr)"
  using assms by (simp add: subscribe_create_def)



lemma subscribe_resolve_marshal_failure:
  assumes "\<not> direct jsc" "\<not> shouldAttach os" "marshal_streamRequest e subj = Inl err"
  shows "subscribe_resolve e jsc tr subj os = (Inl err, tr)"
  using assms by (simp add: subscribe_resolve_def lookupStreamBySubject_def)

lemma subscribe_events:
  assumes "apply_SubOpts opts initial_subOpts = Inr os"
      and "\<not> (cb \<noteq> None \<and> 0 < subOpts.pull os)"
      and "\<not> (direct jsc \<and> \<not> shouldAttach os)"
  shows "\<exists>post. snd (subscribe e jsc tr subj queue cb ch opts) =
                  snd (subscribe_resolve e jsc tr subj os) @ post
           \<and> (\<forall>ev \<in> set post. \<not> is_info_request jsc ev \<and> \<not> is_lookup_request jsc ev)
           \<and> (shouldAttach os \<longrightarrow> (\<forall>ev \<in> set post. \<not> is_create_request jsc ev))
           \<and> ((\<exists>err. fst (subscribe_resolve e jsc tr subj os) = Inl err) \<longrightarrow> post = [])"
proof -
  obtain r tr' where sb: "subscribe e jsc tr subj queue cb ch opts = (r, tr')"
    by (cases "subscribe e jsc tr subj queue cb ch opts")
  from assms sb show ?thesis
  proof (cases rule: subscribe_after_resolve)
    case (resolve_failed err)
    with sb show ?thesis by simp
  next
    case (finished s d ccfg os1 tr1)
    from subscribe_finish_events [OF finished(2)] obtain cb1 rest where
      "tr' = tr1 @ EvSubscribe d queue cb1 ch (cb1 = None) # rest"
      "\<forall>ev \<in> set rest. \<not> is_info_request jsc ev \<and> \<not> is_lookup_request jsc ev"
      "shouldAttach os \<longrightarrow> (\<forall>ev \<in> set rest. \<not> is_request ev \<and> \<not> is_create_request jsc ev)"
      by auto
    with sb finished(1) show ?thesis
      by (intro exI [of _ "EvSubscribe d queue cb1 ch (cb1 = None) # rest"]) simp
  qed
qed

lemma subscribe_attach_path:
  assumes "apply_SubOpts opts initial_subOpts = Inr os"
      and "\<not> (cb \<noteq> None \<and> 0 < subOpts.pull os)"
      and sa: "shouldAttach os"
  shows "(\<forall>ev \<in> set (drop (length tr) (snd (subscribe e jsc tr subj queue cb ch opts))).
            \<not> is_lookup_request jsc ev \<and> \<not> is_create_request jsc ev)
       \<and> (\<not> direct jsc \<longrightarrow>
            (\<exists>rest. snd (subscribe e jsc tr subj queue cb ch opts) =
               tr @ EvRequest (apiSubj jsc (JSApiConsumerInfoT (subOpts.stream os) (subOpts.consumer os)))
                      [] (wait jsc) # rest))"
proof -
  from sa have nd: "\<not> (direct jsc \<and> \<not> shouldAttach os)" by simp
  from subscribe_events [OF assms(1,2) nd, of e tr subj queue ch] obtain post where
    p: "snd (subscribe e jsc tr subj queue cb ch opts) = snd (subscribe_resolve e jsc tr subj os) @ post"
       "\<forall>ev \<in> set post. \<not> is_lookup_request jsc ev \<and> \<not> is_create_request jsc ev"
    using sa by auto
  show ?thesis
  proof (cases "direct jsc")
    case True
    with p sa show ?thesis by (simp add: subscribe_resolve_trace)
  next
    case False
    with p sa show ?thesis by (simp add: subscribe_resolve_trace)
  qed
qed

lemma subscribe_create_path:
  assumes "apply_SubOpts opts initial_subOpts = Inr os"
      and "\<not> (cb \<noteq> None \<and> 0 < subOpts.pull os)"
      and sa: "\<not> shouldAttach os"
  shows "(\<forall>ev \<in> set (drop (length tr) (snd (subscribe e jsc tr subj queue cb ch opts))).
            \<not> is_info_request jsc ev)
       \<and> (direct jsc \<longrightarrow> subscribe e jsc tr subj queue cb ch opts = (Inl ErrDirectModeRequired, tr))
       \<and> (\<not> direct jsc \<longrightarrow>
            snd (subscribe e jsc tr subj queue cb ch opts) = tr
          \<or> (\<exists>j rest. snd (subscribe e jsc tr subj queue cb ch opts) =
               tr @ EvRequest (apiSubj jsc JSApiStreams) j (wait jsc) # rest))"
proof (cases "direct jsc")
  case True
  with assms show ?thesis by (cases cb) (auto simp: subscribe_def)
next
  case False
  then have nd: "\<not> (direct jsc \<and> \<not> shouldAttach os)" by simp
  from subscribe_events [OF assms(1,2) nd, of e tr subj queue ch] obtain post where
    p: "snd (subscribe e jsc tr subj queue cb ch opts) = snd (subscribe_resolve e jsc tr subj os) @ post"
       "\<forall>ev \<in> set post. \<not> is_info_request jsc ev"
       "(\<exists>err. fst (subscribe_resolve e jsc tr subj os) = Inl err) \<longrightarrow> post = []"
    by auto
  show ?thesis
  proof (cases "marshal_streamRequest e subj")
    case (Inl err)
    with subscribe_resolve_marshal_failure [OF False sa Inl, of tr] p False show ?thesis
      by simp
  next
    case (Inr j)
    with p sa False show ?thesis by (simp add: subscribe_resolve_trace)
  qed
qed

lemma subscribe_extends_trace:
  "\<exists>new. snd (subscribe e jsc tr subj queue cb ch opts) = tr @ new"
proof (cases "apply_SubOpts opts initial_subOpts")
  case (Inl err)
  then show ?thesis by (simp add: subscribe_def)
next
  case (Inr os)
  show ?thesis
  proof (cases "(cb \<noteq> None \<and> 0 < subOpts.pull os) \<or> (direct jsc \<and> \<not> shouldAttach os)")
    case True
    with Inr show ?thesis by (cases cb) (auto simp: subscribe_def)
  next
    case False
    then have a2: "\<not> (cb \<noteq> None \<and> 0 < subOpts.pull os)"
      and a3: "\<not> (direct jsc \<and> \<not> shouldAttach os)" by blast+
    from subscribe_events [OF Inr a2 a3, of e tr subj queue ch]
         subscribe_resolve_prefix [of e jsc tr subj os]
    show ?thesis by auto
  qed
qed

text \<open>
  Claim C3. With the options applied and no pull-with-callback conflict, the
  path of a subscribe call is fixed by the options alone. If they give both a
  stream and a consumer name, or a deliver subject, the call is on the attach
  path: it never sends a stream lookup or a create-consumer request, and outside
  direct mode its first request is the consumer info request. In every other
  case it is on the create path: it never sends a consumer info request; in
  direct mode it is refused with nothing sent, otherwise the first thing it
  sends is the stream lookup. The attach condition and its negation exclude
  each other, and the condition reads only the options.
\<close>

theorem subscribe_attach_or_create_by_options:
  assumes "apply_SubOpts opts initial_subOpts = Inr os"
      and "\<not> (cb \<noteq> None \<and> 0 < subOpts.pull os)"
  shows "(subOpts.stream os \<noteq> [] \<and> subOpts.consumer os \<noteq> [] \<or> DeliverSubject (cfg os) \<noteq> [] \<longrightarrow>
            (\<forall>ev \<in> set (drop (length tr) (snd (subscribe e jsc tr subj queue cb ch opts))).
                \<not> is_lookup_request jsc ev \<and> \<not> is_create_request jsc ev)
          \<and> (\<not> direct jsc \<longrightarrow>
                (\<exists>rest. snd (subscribe e jsc tr subj queue cb ch opts) =
                   tr @ EvRequest (apiSubj jsc (''CONSUMER.INFO.'' @ subOpts.stream os @ ''.''
                                                  @ subOpts.consumer os)) [] (wait jsc) # rest)))
       \<and> (\<not> (subOpts.stream os \<noteq> [] \<and> subOpts.consumer os \<noteq> [] \<or> DeliverSubject (cfg os) \<noteq> []) \<longrightarrow>
            (\<forall>ev \<in> set (drop (length tr) (snd (subscribe e jsc tr subj queue cb ch opts))).
                \<not> is_info_request jsc ev)
          \<and> (direct jsc \<longrightarrow>
                subscribe e jsc tr subj queue cb ch opts = (Inl ErrDirectModeRequired, tr))
          \<and> (\<not> direct jsc \<longrightarrow>
                snd (subscribe e jsc tr subj queue cb ch opts) = tr
              \<or> (\<exists>j rest. snd (subscribe e jsc tr subj queue cb ch opts) =
                   tr @ EvRequest (apiSubj jsc ''STREAM.NAMES'') j (wait jsc) # rest)))"
  using subscribe_attach_path [OF assms, where e = e and jsc = jsc and tr = tr and subj = subj
                                 and queue = queue and ch = ch]
        subscribe_create_path [OF assms, where e = e and jsc = jsc and tr = tr and subj = subj
                                 and queue = queue and ch = ch]
  unfolding shouldAttach_def JSApiConsumerInfoT_def JSApiStreams_def
  by blast

theorem subscribe_attach_or_create_by_options_witness:
  "(\<exists>rest. snd (subscribe demo_env demo_js [] ''orders'' [] None (Some 0) [AttachOpt ''ORD'' ''C1'']) =
       [] @ EvRequest (apiSubj demo_js ''CONSUMER.INFO.ORD.C1'') [] (wait demo_js) # rest)
   \<and> (snd (subscribe demo_env demo_js [] ''orders'' [] None (Some 0) []) = []
       \<or> (\<exists>j rest. snd (subscribe demo_env demo_js [] ''orders'' [] None (Some 0) []) =
            [] @ EvRequest (apiSubj demo_js ''STREAM.NAMES'') j (wait demo_js) # rest))"
proof -
  let ?os = "initial_subOpts\<lparr>subOpts.stream := ''ORD'', subOpts.consumer := ''C1''\<rparr>"
  have h1: "apply_SubOpts [AttachOpt ''ORD'' ''C1''] initial_subOpts = Inr ?os" by simp
  have h2: "\<not> ((None :: MsgHandler option) \<noteq> None \<and> 0 < subOpts.pull ?os)" by simp
  have g1: "apply_SubOpts [] initial_subOpts = Inr initial_subOpts" by simp
  have g2: "\<not> ((None :: MsgHandler option) \<noteq> None \<and> 0 < subOpts.pull initial_subOpts)" by simp
  have nd: "\<not> direct demo_js" by (simp add: demo_js_def)
  from subscribe_attach_or_create_by_options [OF h1 h2, of "[]" demo_env demo_js "''orders''" "[]" "Some 0"]
       subscribe_attach_or_create_by_options [OF g1 g2, of "[]" demo_env demo_js "''orders''" "[]" "Some 0"]
       nd
  show ?thesis by (simp add: initial_subOpts_def zero_ConsumerConfig_def)
qed

section \<open>Subscribe: the binding, and Poll\<close>

lemma subscribe_finish_binding:
  assumes "subscribe_finish e jsc tr1 queue cb ch sc s d ccfg os1 = (Inr sub', tr')"
  shows "\<exists>jb. jsi sub' = Some jb
           \<and> pull jb = (if 0 < subOpts.pull os1 then subOpts.pull os1 else 0)
           \<and> (if sc then
                 (\<exists>tr0 cs j data info ci.
                    is_create_request jsc (EvRequest cs j (wait jsc))
                    \<and> reply_of e tr0 (EvRequest cs j (wait jsc)) = Inr data
                    \<and> unmarshal_ConsumerResponse e data = Inr info
                    \<and> Error info = None \<and> ConsumerInfo info = Some ci
                    \<and> deliver jb = DeliverSubject (ConsumerInfo.Config ci))
               else if direct jsc then deliver jb = DeliverSubject (cfg os1)
               else (\<exists>c. ccfg = Some c \<and> deliver jb = DeliverSubject c))"
proof -
  define cb1 where "cb1 = (case cb of None \<Rightarrow> None
                           | Some ocb \<Rightarrow> if \<not> mack os1 then Some (AckAfter ocb) else Some ocb)"
  define ev where "ev = EvSubscribe d queue cb1 ch (cb1 = None)"
  define jb0 where "jb0 = \<lparr>js = jsc, consumer = [], stream = [], deliver = [], pull = 0\<rparr>"
  define sub where "sub = \<lparr>sid = length tr1, Subject = d, Queue = queue, jsi = Some jb0\<rparr>"
  note a = assms [unfolded subscribe_finish_def nc_subscribe_def Let_def,
                  folded cb1_def, folded ev_def, folded jb0_def, folded sub_def]
  have p0: "pull jb0 = 0" by (simp add: jb0_def)
  show ?thesis
  proof (cases "result_of e tr1 ev")
    case (Some err)
    with a show ?thesis by simp
  next
    case None
    show ?thesis
    proof (cases sc)
      case True
      obtain r3 tr3 where c: "subscribe_create e jsc (tr1 @ [ev]) sub s (cfg os1) = (r3, tr3)"
        by (cases "subscribe_create e jsc (tr1 @ [ev]) sub s (cfg os1)")
      from c show ?thesis
      proof (cases rule: subscribe_create_cases)
        case (marshal err)
        with a None True c show ?thesis by simp
      next
        case (failed err j)
        with a None True c show ?thesis by simp
      next
        case (panic j)
        with a None True c show ?thesis by simp
      next
        case (created j data info ci jb)
        from created(6) have jb: "jb = jb0" by (simp add: sub_def)
        let ?CS = "apiSubj jsc (create_subject s (create_config e sub (cfg os1)))"
        have w: "is_create_request jsc (EvRequest ?CS j (wait jsc))" by simp
        have "\<exists>jbf. jsi sub' = Some jbf
                \<and> pull jbf = (if 0 < subOpts.pull os1 then subOpts.pull os1 else 0)
                \<and> deliver jbf = DeliverSubject (ConsumerInfo.Config ci)"
        proof (cases "0 < subOpts.pull os1")
          case pm: True
          with a None True c created jb p0 show ?thesis by auto
        next
          case pm: False
          with a None True c created jb p0 show ?thesis by auto
        qed
        then obtain jbf where f: "jsi sub' = Some jbf"
          "pull jbf = (if 0 < subOpts.pull os1 then subOpts.pull os1 else 0)"
          "deliver jbf = DeliverSubject (ConsumerInfo.Config ci)" by blast
        have "\<exists>tr0 cs j data info ci.
                    is_create_request jsc (EvRequest cs j (wait jsc))
                    \<and> reply_of e tr0 (EvRequest cs j (wait jsc)) = Inr data
                    \<and> unmarshal_ConsumerResponse e data = Inr info
                    \<and> Error info = None \<and> ConsumerInfo info = Some ci
                    \<and> deliver jbf = DeliverSubject (ConsumerInfo.Config ci)"
          using w created(2,3,4,5) f(3)
          by (intro exI [of _ "tr1 @ [ev]"] exI [of _ ?CS] exI [of _ j] exI [of _ data]
                exI [of _ info] exI [of _ ci]) simp
        with f(1,2) True show ?thesis
          by (intro exI [of _ jbf]) (simp only: if_True simp_thms)
      qed
    next
      case False
      show ?thesis
      proof (cases "0 < subOpts.pull os1")
        case pm: True
        with a None False p0 show ?thesis
          by (auto simp: subscribe_existing_def sub_def split: if_splits option.splits)
      next
        case pm: False
        with a None False p0 show ?thesis
          by (auto simp: subscribe_existing_def sub_def split: if_splits option.splits)
      qed
    qed
  qed
qed

lemma Poll_cases:
  "(jsi s = Some jb \<and> deliver jb = [] \<and> pull jb \<noteq> 0 \<longrightarrow>
      Poll e tr s =
        (result_of e tr (EvPublishRequest
             (apiSubj (js jb) (''CONSUMER.MSG.NEXT.'' @ jsSub.stream jb @ ''.'' @ jsSub.consumer jb))
             (Subscription.Subject s) (marshal_NextRequest (pull jb))),
         tr @ [EvPublishRequest
             (apiSubj (js jb) (''CONSUMER.MSG.NEXT.'' @ jsSub.stream jb @ ''.'' @ jsSub.consumer jb))
             (Subscription.Subject s) (marshal_NextRequest (pull jb))]))
   \<and> (jsi s = None \<or> jsi s = Some jb \<and> (deliver jb \<noteq> [] \<or> pull jb = 0) \<longrightarrow>
      Poll e tr s = (Some ErrTypeSubscription, tr))"
  by (auto simp: Poll_def PublishRequest_def JSApiRequestNextT_def)

text \<open>
  Claim C5 (amended). After a successful subscribe the binding stores the
  requested batch size in pull mode and 0 otherwise, and as deliver subject the
  one the call learned for the remote consumer: in direct mode the deliver
  subject the caller supplied, on the attach path the configured deliver
  subject of the fetched consumer, on the create path the deliver subject of
  the configuration in the server's answer to a create request. Nothing makes
  it empty in pull mode or non-empty in push mode: that holds only when the
  consumer, or the caller's option, is of the matching kind. \<^verbatim>\<open>Poll\<close> issues the
  next-message request, to \<open>CONSUMER.MSG.NEXT.<stream>.<consumer>\<close> with the
  subscription's subject as return address and the batch size as body, on a
  binding with empty deliver subject and nonzero batch size, and fails with the
  wrong-subscription-type error, sending nothing, on every other subscription.
\<close>

theorem subscribe_binding_and_Poll:
  "(subscribe e jsc tr subj queue cb ch opts = (Inr sub, tr') \<longrightarrow>
      (\<exists>os jb. apply_SubOpts opts initial_subOpts = Inr os \<and> jsi sub = Some jb
         \<and> pull jb = (if 0 < subOpts.pull os then subOpts.pull os else 0)
         \<and> (direct jsc \<longrightarrow> deliver jb = DeliverSubject (cfg os))
         \<and> (\<not> direct jsc \<and> shouldAttach os \<longrightarrow>
              (\<exists>info. fst (getConsumerInfo e jsc tr (subOpts.stream os) (subOpts.consumer os))
                         = Inr (Some info)
                     \<and> deliver jb = DeliverSubject (ConsumerInfo.Config info)))
         \<and> (\<not> direct jsc \<and> \<not> shouldAttach os \<longrightarrow>
              (\<exists>tr0 cs j data info ci.
                 is_create_request jsc (EvRequest cs j (wait jsc))
                 \<and> reply_of e tr0 (EvRequest cs j (wait jsc)) = Inr data
                 \<and> unmarshal_ConsumerResponse e data = Inr info
                 \<and> Error info = None \<and> ConsumerInfo info = Some ci
                 \<and> deliver jb = DeliverSubject (ConsumerInfo.Config ci)))))
   \<and> (jsi s = Some jb' \<and> deliver jb' = [] \<and> pull jb' \<noteq> 0 \<longrightarrow>
      Poll e tr s =
        (result_of e tr (EvPublishRequest
             (apiSubj (js jb') (''CONSUMER.MSG.NEXT.'' @ jsSub.stream jb' @ ''.'' @ jsSub.consumer jb'))
             (Subscription.Subject s) (marshal_NextRequest (pull jb'))),
         tr @ [EvPublishRequest
             (apiSubj (js jb') (''CONSUMER.MSG.NEXT.'' @ jsSub.stream jb' @ ''.'' @ jsSub.consumer jb'))
             (Subscription.Subject s) (marshal_NextRequest (pull jb'))]))
   \<and> (jsi s = None \<or> jsi s = Some jb' \<and> (deliver jb' \<noteq> [] \<or> pull jb' = 0) \<longrightarrow>
      Poll e tr s = (Some ErrTypeSubscription, tr))"
proof -
  have "\<exists>os jb. apply_SubOpts opts initial_subOpts = Inr os \<and> jsi sub = Some jb
         \<and> pull jb = (if 0 < subOpts.pull os then subOpts.pull os else 0)
         \<and> (direct jsc \<longrightarrow> deliver jb = DeliverSubject (cfg os))
         \<and> (\<not> direct jsc \<and> shouldAttach os \<longrightarrow>
              (\<exists>info. fst (getConsumerInfo e jsc tr (subOpts.stream os) (subOpts.consumer os))
                         = Inr (Some info)
                     \<and> deliver jb = DeliverSubject (ConsumerInfo.Config info)))
         \<and> (\<not> direct jsc \<and> \<not> shouldAttach os \<longrightarrow>
              (\<exists>tr0 cs j data info ci.
                 is_create_request jsc (EvRequest cs j (wait jsc))
                 \<and> reply_of e tr0 (EvRequest cs j (wait jsc)) = Inr data
                 \<and> unmarshal_ConsumerResponse e data = Inr info
                 \<and> Error info = None \<and> ConsumerInfo info = Some ci
                 \<and> deliver jb = DeliverSubject (ConsumerInfo.Config ci)))"
    if sb: "subscribe e jsc tr subj queue cb ch opts = (Inr sub, tr')"
  proof -
    from sb obtain os where os: "apply_SubOpts opts initial_subOpts = Inr os"
      by (cases "apply_SubOpts opts initial_subOpts") (auto simp: subscribe_def)
    from sb os have a2: "\<not> (cb \<noteq> None \<and> 0 < subOpts.pull os)"
      and a3: "\<not> (direct jsc \<and> \<not> shouldAttach os)"
      by (auto simp: subscribe_def split: if_splits)
    from os a2 a3 sb show ?thesis
    proof (cases rule: subscribe_after_resolve)
      case (resolve_failed err)
      then show ?thesis by simp
    next
      case (finished s d ccfg os1 tr1)
      note rr = subscribe_resolve_result [OF finished(1)]
      from subscribe_finish_binding [OF finished(2)] obtain jb where
        jb: "jsi sub = Some jb"
            "pull jb = (if 0 < subOpts.pull os1 then subOpts.pull os1 else 0)"
        and bd: "if \<not> shouldAttach os then
                 (\<exists>tr0 cs j data info ci.
                    is_create_request jsc (EvRequest cs j (wait jsc))
                    \<and> reply_of e tr0 (EvRequest cs j (wait jsc)) = Inr data
                    \<and> unmarshal_ConsumerResponse e data = Inr info
                    \<and> Error info = None \<and> ConsumerInfo info = Some ci
                    \<and> deliver jb = DeliverSubject (ConsumerInfo.Config ci))
               else if direct jsc then deliver jb = DeliverSubject (cfg os1)
               else (\<exists>c. ccfg = Some c \<and> deliver jb = DeliverSubject c)"
        by (elim exE conjE)
      show ?thesis
      proof (cases "shouldAttach os")
        case sa: True
        with rr(2) have o1: "os1 = os" by simp
        show ?thesis
        proof (cases "direct jsc")
          case True
          with os jb bd sa o1 show ?thesis by auto
        next
          case False
          with rr(3) sa obtain info where
            "fst (getConsumerInfo e jsc tr (subOpts.stream os) (subOpts.consumer os)) = Inr (Some info)"
            "ccfg = Some (ConsumerInfo.Config info)" by blast
          with os jb bd sa o1 False show ?thesis by auto
        qed
      next
        case sa: False
        with a3 have nd: "\<not> direct jsc" by simp
        from bd sa have "\<exists>tr0 cs j data info ci.
                    is_create_request jsc (EvRequest cs j (wait jsc))
                    \<and> reply_of e tr0 (EvRequest cs j (wait jsc)) = Inr data
                    \<and> unmarshal_ConsumerResponse e data = Inr info
                    \<and> Error info = None \<and> ConsumerInfo info = Some ci
                    \<and> deliver jb = DeliverSubject (ConsumerInfo.Config ci)"
          by (simp only: if_True simp_thms)
        with os jb rr(1) sa nd show ?thesis
          by (intro exI [of _ os] exI [of _ jb]) simp
      qed
    qed
  qed
  with Poll_cases [of s jb' e tr] show ?thesis by blast
qed

theorem subscribe_binding_and_Poll_witness:
  "(\<exists>os jb. apply_SubOpts [DurableOpt ''worker'', PullOpt 10] initial_subOpts = Inr os
       \<and> jsi \<lparr>sid = 1, Subject = ''_INBOX.1'', Queue = [],
              jsi = Some \<lparr>js = demo_js, consumer = ''worker'', stream = ''ORD'',
                          deliver = [], pull = 10\<rparr>\<rparr> = Some jb
       \<and> pull jb = 10)
   \<and> Poll demo_env [] (demo_sub 10) =
       (None, [EvPublishRequest ''$JS.API.CONSUMER.MSG.NEXT.ORD.C1'' ''_INBOX.0'' ''{\"batch\":10}''])
   \<and> Poll demo_env [] (demo_sub 0) = (Some ErrTypeSubscription, [])"
proof -
  let ?sub = "\<lparr>sid = 1, Subject = ''_INBOX.1'', Queue = [],
              jsi = Some \<lparr>js = demo_js, consumer = ''worker'', stream = ''ORD'',
                          deliver = [], pull = 10\<rparr>\<rparr>"
  let ?tr = "[EvRequest ''$JS.API.STREAM.NAMES'' ''{\"subject\":\"orders\"}'' 5000000000,
              EvSubscribe ''_INBOX.1'' [] None (Some 0) True,
              EvRequest ''$JS.API.CONSUMER.DURABLE.CREATE.ORD.worker''
                ''{\"stream_name\":\"ORD\",\"config\":{\"durable_name\":\"worker\"}}'' 5000000000,
              EvPublishRequest ''$JS.API.CONSUMER.MSG.NEXT.ORD.worker'' ''_INBOX.1'' ''{\"batch\":10}'']"
  have sb: "subscribe demo_env demo_js [] ''orders'' [] None (Some 0) [DurableOpt ''worker'', PullOpt 10]
              = (Inr ?sub, ?tr)"
    by code_simp
  have hp: "jsi (demo_sub 10) = Some (demo_binding 10) \<and> deliver (demo_binding 10) = []
              \<and> pull (demo_binding 10) \<noteq> 0"
    by (simp add: demo_sub_def demo_binding_def)
  have hq: "jsi (demo_sub 0) = None \<or> jsi (demo_sub 0) = Some (demo_binding 0)
              \<and> (deliver (demo_binding 0) \<noteq> [] \<or> pull (demo_binding 0) = 0)"
    by (simp add: demo_sub_def demo_binding_def)
  have v: "apiSubj (js (demo_binding 10))
             (''CONSUMER.MSG.NEXT.'' @ jsSub.stream (demo_binding 10) @ ''.''
                @ jsSub.consumer (demo_binding 10)) = ''$JS.API.CONSUMER.MSG.NEXT.ORD.C1''"
          "Subscription.Subject (demo_sub 10) = ''_INBOX.0''"
          "marshal_NextRequest (pull (demo_binding 10)) = ''{\"batch\":10}''"
          "result_of demo_env tr ev = None" for tr ev
    by code_simp+
  note t1 = subscribe_binding_and_Poll [where e = demo_env and jsc = demo_js and tr = "[]" and subj = "''orders''"
                  and queue = "[]" and cb = None and ch = "Some 0"
                  and opts = "[DurableOpt ''worker'', PullOpt 10]" and sub = ?sub and tr' = ?tr
                  and s = "demo_sub 10" and jb' = "demo_binding 10"]
  note t2 = subscribe_binding_and_Poll [where e = demo_env and jsc = demo_js and tr = "[]" and subj = "''orders''"
                  and queue = "[]" and cb = None and ch = "Some 0"
                  and opts = "[DurableOpt ''worker'', PullOpt 10]" and sub = ?sub and tr' = ?tr
                  and s = "demo_sub 0" and jb' = "demo_binding 0"]
  from t1 [THEN conjunct1, THEN mp, OF sb] obtain os jb where
    "apply_SubOpts [DurableOpt ''worker'', PullOpt 10] initial_subOpts = Inr os"
    "jsi ?sub = Some jb" "pull jb = (if 0 < subOpts.pull os then subOpts.pull os else 0)"
    by (elim exE conjE)
  then have a: "\<exists>os jb. apply_SubOpts [DurableOpt ''worker'', PullOpt 10] initial_subOpts = Inr os
       \<and> jsi ?sub = Some jb \<and> pull jb = 10"
    by (intro exI [of _ os] exI [of _ jb]) (auto simp: initial_subOpts_def)
  note b = t1 [THEN conjunct2, THEN conjunct1, THEN mp, OF hp, unfolded v]
  note c = t2 [THEN conjunct2, THEN conjunct2, THEN mp, OF hq]
  from a b c show ?thesis by (intro conjI) simp_all
qed

text \<open>
  The claim as first stated has the stored deliver subject empty in pull mode
  and non-empty in push mode after every successful subscribe. In direct mode
  with \<^verbatim>\<open>Attach\<close> and no deliver subject, the call succeeds in push mode (batch
  size 0) and stores the empty deliver subject of the options (js.go 555);
  attaching in pull mode to a consumer that pushes to \<open>deliver.C1\<close> succeeds and
  stores that deliver subject with the batch size 10 (js.go 557, 563).
\<close>

theorem subscribe_binding_invariant_fails:
  "subscribe demo_env demo_js_direct [] ''orders'' [] None (Some 0) [AttachOpt ''ORD'' ''C1''] =
     (Inr \<lparr>sid = 0, Subject = ''_INBOX.0'', Queue = [],
           jsi = Some \<lparr>js = demo_js_direct, consumer = ''C1'', stream = ''ORD'',
                       deliver = [], pull = 0\<rparr>\<rparr>,
      [EvSubscribe ''_INBOX.0'' [] None (Some 0) True])
   \<and> subscribe demo_env demo_js [] ''orders'' [] None (Some 0) [AttachOpt ''ORD'' ''C1'', PullOpt 10] =
     (Inr \<lparr>sid = 1, Subject = ''deliver.C1'', Queue = [],
           jsi = Some \<lparr>js = demo_js, consumer = ''C1'', stream = ''ORD'',
                       deliver = ''deliver.C1'', pull = 10\<rparr>\<rparr>,
      [EvRequest ''$JS.API.CONSUMER.INFO.ORD.C1'' [] 5000000000,
       EvSubscribe ''deliver.C1'' [] None (Some 0) True])"
  by code_simp

end
